theory Spec2Isabelle
  imports Main "HOL-Library.Sublist"
begin

section \<open>Documents, collections and library parameters\<close>

text \<open>
  The application keeps two MongoDB collections, \<open>Todo\<close> (models/Todo.ts) and \<open>User\<close>.
  A collection is modelled as the list of its documents in natural (insertion) order.
  Strings are lists of code units; the development reads a \<open>char\<close> as a code unit
  below 256.
\<close>

datatype objectId = ObjectId nat

text \<open>
  \<^verbatim>\<open>
  const todoSchema = new Schema({
    text: { type: String, required: true },
    completed: { type: Boolean, default: false },
    createdAt: { type: Date, default: Date.now },
    userId: { type: Schema.Types.ObjectId, ref: 'User', required: true }
  });
  \<close>
  \<open>todo_id\<close> is the document's \<open>_id\<close>, \<open>todo_text\<close> its \<open>text\<close>.
\<close>

record todo =
  todo_id :: objectId
  todo_text :: string
  completed :: bool
  createdAt :: int
  userId :: objectId

record user =
  user_id :: objectId
  username :: string
  password :: string

record store =
  Todo :: "todo list"
  User :: "user list"

text \<open>What \<open>jwt.verify\<close> does with a token: it throws, or it returns the decoded payload,
  whose \<open>userId\<close> property may be missing.\<close>

datatype jwt_outcome = JwtThrows string | JwtPayload "string option"

text \<open>
  The packages the sources call (bson, jsonwebtoken, csurf, validator.js) and the \<open>User\<close> model
  (models/User.ts, with its pre-save hook and \<open>comparePassword\<close>) are not part of
  the sources. Each is a parameter of the model:
  \<^item> \<open>ObjectId_new s\<close> is \<open>new Types.ObjectId(s)\<close>, and Mongoose's cast of a string to
    an ObjectId: \<open>Inl m\<close> when it throws with message \<open>m\<close>;
  \<^item> \<open>ObjectId_toString\<close> is \<open>id.toString()\<close>, \<open>toISOString\<close> is \<open>Date.toISOString\<close>;
  \<^item> \<open>jwt_verify\<close> and \<open>jwt_sign\<close> are \<open>jwt.verify(token, JWT_SECRET)\<close> and
    \<open>jwt.sign({ userId }, JWT_SECRET, { expiresIn })\<close>;
  \<^item> \<open>hashPassword\<close> is the pre-save hook, \<open>comparePassword stored candidate\<close> the
    model's method;
  \<^item> \<open>csrf_verify secret token\<close> is csurf's token check, \<open>csrf_secret_new\<close> the secret
    csurf creates for a client that has none;
  \<^item> \<open>isStrongPassword\<close> is validator.js's check with the options of POST /register
    (\<open>minLength: 8, minLowercase: 1, minUppercase: 1, minNumbers: 1, minSymbols: 1\<close>).
\<close>

record lib =
  ObjectId_new :: "string \<Rightarrow> string + objectId"
  ObjectId_toString :: "objectId \<Rightarrow> string"
  toISOString :: "int \<Rightarrow> string"
  jwt_verify :: "string \<Rightarrow> jwt_outcome"
  jwt_sign :: "string \<Rightarrow> string \<Rightarrow> string"
  hashPassword :: "string \<Rightarrow> string"
  comparePassword :: "string \<Rightarrow> string \<Rightarrow> bool"
  csrf_verify :: "string \<Rightarrow> string \<Rightarrow> bool"
  csrf_secret_new :: string
  isStrongPassword :: "string \<Rightarrow> bool"

text \<open>JavaScript truthiness of an optional string: \<open>undefined\<close> and \<open>""\<close> are falsy.\<close>

definition truthy :: "string option \<Rightarrow> string option" where
  "truthy v = (case v of None \<Rightarrow> None | Some s \<Rightarrow> if s = [] then None else Some s)"

text \<open>\<open>err.message || fallback\<close>.\<close>

definition orMessage :: "string \<Rightarrow> string \<Rightarrow> string" where
  "orMessage m fallback = (if m = [] then fallback else m)"

subsection \<open>Mongoose operations on the Todo collection\<close>

text \<open>\<open>Todo.findOne({ _id, userId })\<close>: the first document matching both fields.\<close>

definition Todo_findOne :: "objectId \<Rightarrow> objectId \<Rightarrow> todo list \<Rightarrow> todo option" where
  "Todo_findOne oid uid ds = find (\<lambda>d. todo_id d = oid \<and> userId d = uid) ds"

text \<open>
  \<open>todo.save()\<close> on a document that was loaded and whose \<open>completed\<close> path was
  assigned: Mongoose sends \<open>updateOne({ _id }, { $set: { completed } })\<close>, which changes
  the first document with that \<open>_id\<close>.
\<close>

fun Todo_save_completed :: "objectId \<Rightarrow> bool \<Rightarrow> todo list \<Rightarrow> todo list" where
  "Todo_save_completed oid b [] = []"
| "Todo_save_completed oid b (d # ds) =
     (if todo_id d = oid then d\<lparr>completed := b\<rparr> # ds
      else d # Todo_save_completed oid b ds)"

text \<open>\<open>Todo.deleteOne({ _id, userId })\<close>: removes the first matching document; the
  second component is \<open>deletedCount\<close>.\<close>

fun Todo_deleteOne :: "objectId \<Rightarrow> objectId \<Rightarrow> todo list \<Rightarrow> todo list \<times> nat" where
  "Todo_deleteOne oid uid [] = ([], 0)"
| "Todo_deleteOne oid uid (d # ds) =
     (if todo_id d = oid \<and> userId d = uid then (ds, 1)
      else (d # fst (Todo_deleteOne oid uid ds), snd (Todo_deleteOne oid uid ds)))"

text \<open>
  \<open>new Todo({ text, userId }).save()\<close>. The constructor draws the \<open>_id\<close> (\<open>newId\<close>)
  and evaluates the defaults (\<open>completed = false\<close>, \<open>createdAt = Date.now()\<close>, here
  \<open>now\<close>); \<open>save\<close> validates (\<open>text\<close> is required: a string of length 0 is rejected)
  and inserts; MongoDB refuses a second document with the same \<open>_id\<close>.
\<close>

definition Todo_create :: "objectId \<Rightarrow> int \<Rightarrow> string \<Rightarrow> objectId \<Rightarrow> todo list \<Rightarrow> string + (todo \<times> todo list)" where
  "Todo_create newId now txt uid ds =
     (if txt = [] then Inl ''Todo validation failed: text: Path `text` is required.''
      else if newId \<in> set (map todo_id ds) then Inl ''E11000 duplicate key error collection: todos index: _id_''
      else (let d = \<lparr>todo_id = newId, todo_text = txt, completed = False, createdAt = now, userId = uid\<rparr>
            in Inr (d, ds @ [d])))"

text \<open>\<open>Todo.find({ userId })\<close> and \<open>.sort({ createdAt: -1 })\<close>: newest first. MongoDB
  leaves the order of documents with equal \<open>createdAt\<close> open; the model keeps them in
  natural order.\<close>

definition Todo_find :: "objectId \<Rightarrow> todo list \<Rightarrow> todo list" where
  "Todo_find uid ds = filter (\<lambda>d. userId d = uid) ds"

definition sort_createdAt_desc :: "todo list \<Rightarrow> todo list" where
  "sort_createdAt_desc ds = sort_key (\<lambda>d. - createdAt d) ds"

text \<open>The \<open>_id\<close> index MongoDB keeps on a collection: no two documents share an
  \<open>_id\<close>.\<close>

definition unique_ids :: "store \<Rightarrow> bool" where
  "unique_ids s = distinct (map todo_id (Todo s))"

section \<open>The GraphQL resolvers\<close>

text \<open>\<open>AuthContext\<close> (middleware/auth.ts): \<open>{ userId?: string }\<close>.\<close>

record AuthContext =
  ctx_userId :: "string option"

text \<open>\<open>TodoPayload\<close> (todoResolvers.ts): \<open>{ id, text, completed, createdAt }\<close>.\<close>

record TodoPayload =
  payload_id :: string
  payload_text :: string
  payload_completed :: bool
  payload_createdAt :: string

record UserPayload =
  user_payload_id :: string
  user_payload_username :: string

text \<open>The payload built from a hydrated document (\<open>saved\<close>, \<open>updated\<close>): its \<open>id\<close>
  getter is the \<open>_id\<close> as a string.\<close>

definition todoPayload :: "lib \<Rightarrow> todo \<Rightarrow> TodoPayload" where
  "todoPayload L d =
     \<lparr>payload_id = ObjectId_toString L (todo_id d), payload_text = todo_text d,
      payload_completed = completed d, payload_createdAt = toISOString L (createdAt d)\<rparr>"

subsection \<open>Query todos\<close>

text \<open>
  \<^verbatim>\<open>
  const docs = await Todo.find({ userId: new Types.ObjectId(userId) })
    .skip(skip).limit(take).sort({ createdAt: -1 }).lean<ITodo[]>();
  \<close>
  The query is built before it runs, so the order of the calls does not matter: MongoDB
  sorts, then skips, then limits. It refuses a negative \<open>skip\<close>; a \<open>limit\<close> of 0 is no
  limit, and the driver sends a negative limit as its absolute value.
\<close>

definition Todo_query :: "objectId \<Rightarrow> int \<Rightarrow> int \<Rightarrow> todo list \<Rightarrow> string + todo list" where
  "Todo_query uid skip tk ds =
     (if skip < 0 then Inl ''Skip value must be non-negative''
      else (let sorted = sort_createdAt_desc (Todo_find uid ds);
                rest = drop (nat skip) sorted
            in Inr (if tk = 0 then rest else take (nat \<bar>tk\<bar>) rest)))"

text \<open>
  \<open>.lean()\<close> makes the query return plain objects (the source's comment: "Fetch plain JS
  objects"), which hold the stored fields (\<open>_id\<close>, \<open>text\<close>, \<open>completed\<close>, \<open>createdAt\<close>,
  \<open>userId\<close>) and none of the schema's virtuals: the \<open>id\<close> getter of a hydrated document
  is a virtual, so \<open>d.id\<close> is \<open>undefined\<close> on a lean document.
\<close>

definition lean_id :: "todo \<Rightarrow> string option" where
  "lean_id d = None"

text \<open>The callback of \<open>docs.map\<close>: \<open>d.id.toString()\<close> throws a TypeError when \<open>d.id\<close> is
  \<open>undefined\<close>.\<close>

definition leanPayload :: "lib \<Rightarrow> todo \<Rightarrow> string + TodoPayload" where
  "leanPayload L d =
     (case lean_id d of
        None \<Rightarrow> Inl ''Cannot read properties of undefined (reading 'toString')''
      | Some i \<Rightarrow> Inr \<lparr>payload_id = i, payload_text = todo_text d,
                        payload_completed = completed d,
                        payload_createdAt = toISOString L (createdAt d)\<rparr>)"

text \<open>\<open>Array.prototype.map\<close> with a callback that can throw: the first throw ends it.\<close>

fun map_throw :: "('a \<Rightarrow> string + 'b) \<Rightarrow> 'a list \<Rightarrow> string + 'b list" where
  "map_throw f [] = Inr []"
| "map_throw f (x # xs) =
     (case f x of
        Inl m \<Rightarrow> Inl m
      | Inr y \<Rightarrow> (case map_throw f xs of Inl m \<Rightarrow> Inl m | Inr ys \<Rightarrow> Inr (y # ys)))"

text \<open>The body of the \<open>try\<close> block of \<open>todos\<close>.\<close>

definition todos_try :: "lib \<Rightarrow> string \<Rightarrow> int \<Rightarrow> int \<Rightarrow> store \<Rightarrow> string + TodoPayload list" where
  "todos_try L uid skip tk s =
     (case ObjectId_new L uid of
        Inl m \<Rightarrow> Inl m
      | Inr u \<Rightarrow>
          (case Todo_query u skip tk (Todo s) of
             Inl m \<Rightarrow> Inl m
           | Inr docs \<Rightarrow> map_throw (leanPayload L) docs))"

definition todos :: "lib \<Rightarrow> AuthContext \<Rightarrow> int option \<Rightarrow> int option \<Rightarrow> store \<Rightarrow> string + TodoPayload list" where
  "todos L ctx skip_arg take_arg s =
     (case truthy (ctx_userId ctx) of
        None \<Rightarrow> Inl ''Authentication required''
      | Some uid \<Rightarrow>
          (let skip = (case skip_arg of None \<Rightarrow> 0 | Some k \<Rightarrow> k);
               tk = (case take_arg of None \<Rightarrow> 10 | Some k \<Rightarrow> k)
           in case todos_try L uid skip tk s of
                Inl m \<Rightarrow> Inl ''Failed to fetch todos''
              | Inr r \<Rightarrow> Inr r))"

subsection \<open>Mutations addTodo, toggleTodo, deleteTodo\<close>

definition addTodo_try :: "lib \<Rightarrow> objectId \<Rightarrow> int \<Rightarrow> string \<Rightarrow> string \<Rightarrow> store \<Rightarrow> (string + TodoPayload) \<times> store" where
  "addTodo_try L newId now uid txt s =
     (case ObjectId_new L uid of
        Inl m \<Rightarrow> (Inl m, s)
      | Inr u \<Rightarrow>
          (case Todo_create newId now txt u (Todo s) of
             Inl m \<Rightarrow> (Inl m, s)
           | Inr (saved, ds) \<Rightarrow> (Inr (todoPayload L saved), s\<lparr>Todo := ds\<rparr>)))"

definition addTodo :: "lib \<Rightarrow> objectId \<Rightarrow> int \<Rightarrow> AuthContext \<Rightarrow> string \<Rightarrow> store \<Rightarrow> (string + TodoPayload) \<times> store" where
  "addTodo L newId now ctx txt s =
     (case truthy (ctx_userId ctx) of
        None \<Rightarrow> (Inl ''Authentication required'', s)
      | Some uid \<Rightarrow>
          (case addTodo_try L newId now uid txt s of
             (Inl m, s') \<Rightarrow> (Inl (orMessage m ''Failed to add todo''), s')
           | (Inr r, s') \<Rightarrow> (Inr r, s')))"

definition toggleTodo_try :: "lib \<Rightarrow> string \<Rightarrow> string \<Rightarrow> store \<Rightarrow> (string + TodoPayload) \<times> store" where
  "toggleTodo_try L uid ident s =
     (case ObjectId_new L ident of
        Inl m \<Rightarrow> (Inl m, s)
      | Inr oid \<Rightarrow>
          (case ObjectId_new L uid of
             Inl m \<Rightarrow> (Inl m, s)
           | Inr u \<Rightarrow>
               (case Todo_findOne oid u (Todo s) of
                  None \<Rightarrow> (Inl ''Todo not found'', s)
                | Some t \<Rightarrow>
                    (let updated = t\<lparr>completed := \<not> completed t\<rparr>
                     in (Inr (todoPayload L updated),
                         s\<lparr>Todo := Todo_save_completed (todo_id updated) (completed updated) (Todo s)\<rparr>)))))"

definition toggleTodo :: "lib \<Rightarrow> AuthContext \<Rightarrow> string \<Rightarrow> store \<Rightarrow> (string + TodoPayload) \<times> store" where
  "toggleTodo L ctx ident s =
     (case truthy (ctx_userId ctx) of
        None \<Rightarrow> (Inl ''Authentication required'', s)
      | Some uid \<Rightarrow>
          (case toggleTodo_try L uid ident s of
             (Inl m, s') \<Rightarrow> (Inl (orMessage m ''Failed to toggle todo''), s')
           | (Inr r, s') \<Rightarrow> (Inr r, s')))"

definition deleteTodo_try :: "lib \<Rightarrow> string \<Rightarrow> string \<Rightarrow> store \<Rightarrow> (string + bool) \<times> store" where
  "deleteTodo_try L uid ident s =
     (case ObjectId_new L ident of
        Inl m \<Rightarrow> (Inl m, s)
      | Inr oid \<Rightarrow>
          (case ObjectId_new L uid of
             Inl m \<Rightarrow> (Inl m, s)
           | Inr u \<Rightarrow>
               (let result = Todo_deleteOne oid u (Todo s)
                in if snd result = 0 then (Inl ''Todo not found'', s\<lparr>Todo := fst result\<rparr>)
                   else (Inr True, s\<lparr>Todo := fst result\<rparr>))))"

definition deleteTodo :: "lib \<Rightarrow> AuthContext \<Rightarrow> string \<Rightarrow> store \<Rightarrow> (string + bool) \<times> store" where
  "deleteTodo L ctx ident s =
     (case truthy (ctx_userId ctx) of
        None \<Rightarrow> (Inl ''Authentication required'', s)
      | Some uid \<Rightarrow>
          (case deleteTodo_try L uid ident s of
             (Inl m, s') \<Rightarrow> (Inl (orMessage m ''Failed to delete todo''), s')
           | (Inr r, s') \<Rightarrow> (Inr r, s')))"

subsection \<open>Mutations register and login\<close>

text \<open>\<open>User.findOne({ username })\<close>.\<close>

definition User_findOne :: "string \<Rightarrow> user list \<Rightarrow> user option" where
  "User_findOne uname us = find (\<lambda>u. username u = uname) us"

text \<open>
  Modelled from the spec: the \<open>User\<close> model (models/User.ts: the schema, its pre-save
  hook and \<open>comparePassword\<close>) is not among the sources. The spec gives a User an
  identifier, a username and a password hash, and says of registration that it "fails
  if the username is already registered; otherwise derives a one-way password hash and
  persists a new User". So \<open>new User({ username, password }).save()\<close> stores the username
  as given with the hash of the password (\<open>hashPassword\<close>, the pre-save hook the source's
  comment names) under the \<open>_id\<close> the constructor drew, and runs no validation of the
  two fields; MongoDB refuses a second document with the same \<open>_id\<close>.
\<close>

definition User_create :: "lib \<Rightarrow> objectId \<Rightarrow> string \<Rightarrow> string \<Rightarrow> user list \<Rightarrow> string + (user \<times> user list)" where
  "User_create L newId uname pw us =
     (if newId \<in> set (map user_id us) then Inl ''E11000 duplicate key error collection: users index: _id_''
      else (let u = \<lparr>user_id = newId, username = uname, password = hashPassword L pw\<rparr>
            in Inr (u, us @ [u])))"

text \<open>The resolvers take \<open>(_parent, args)\<close> only: the context Apollo passes as third
  argument is not read.\<close>

definition register :: "lib \<Rightarrow> objectId \<Rightarrow> string \<Rightarrow> string \<Rightarrow> store \<Rightarrow> (string + UserPayload) \<times> store" where
  "register L newId uname pw s =
     (if User_findOne uname (User s) \<noteq> None then (Inl ''Username already exists'', s)
      else (case User_create L newId uname pw (User s) of
              Inl m \<Rightarrow> (Inl m, s)
            | Inr (u, us) \<Rightarrow>
                (Inr \<lparr>user_payload_id = ObjectId_toString L (user_id u),
                      user_payload_username = username u\<rparr>,
                 s\<lparr>User := us\<rparr>)))"

definition login :: "lib \<Rightarrow> string \<Rightarrow> string \<Rightarrow> store \<Rightarrow> string + string" where
  "login L uname pw s =
     (case User_findOne uname (User s) of
        None \<Rightarrow> Inl ''User not found''
      | Some u \<Rightarrow>
          (if \<not> comparePassword L (password u) pw then Inl ''Invalid password''
           else Inr (jwt_sign L (ObjectId_toString L (user_id u)) ''7d'')))"

subsection \<open>The resolver map\<close>

text \<open>
  \<open>resolvers = { Query: { todos }, Mutation: { register, login, addTodo, toggleTodo,
  deleteTodo } }\<close> (resolvers/index.ts). An operation of the API is a field of this map
  with its arguments; Apollo calls the resolver with the request's context.
\<close>

datatype operation =
    OpTodos "int option" "int option"
  | OpRegister string string
  | OpLogin string string
  | OpAddTodo string
  | OpToggleTodo string
  | OpDeleteTodo string

datatype gql_value =
    TodoList "TodoPayload list"
  | UserValue UserPayload
  | TokenValue string
  | TodoValue TodoPayload
  | BoolValue bool

text \<open>\<open>newId\<close> and \<open>now\<close> are what a constructor would draw during the call.\<close>

fun resolve :: "lib \<Rightarrow> objectId \<Rightarrow> int \<Rightarrow> AuthContext \<Rightarrow> operation \<Rightarrow> store \<Rightarrow> (string + gql_value) \<times> store" where
  "resolve L newId now ctx (OpTodos skip_arg take_arg) s =
     (map_sum (\<lambda>m. m) TodoList (todos L ctx skip_arg take_arg s), s)"
| "resolve L newId now ctx (OpRegister uname pw) s =
     (case register L newId uname pw s of (r, s') \<Rightarrow> (map_sum (\<lambda>m. m) UserValue r, s'))"
| "resolve L newId now ctx (OpLogin uname pw) s =
     (map_sum (\<lambda>m. m) TokenValue (login L uname pw s), s)"
| "resolve L newId now ctx (OpAddTodo txt) s =
     (case addTodo L newId now ctx txt s of (r, s') \<Rightarrow> (map_sum (\<lambda>m. m) TodoValue r, s'))"
| "resolve L newId now ctx (OpToggleTodo ident) s =
     (case toggleTodo L ctx ident s of (r, s') \<Rightarrow> (map_sum (\<lambda>m. m) TodoValue r, s'))"
| "resolve L newId now ctx (OpDeleteTodo ident) s =
     (case deleteTodo L ctx ident s of (r, s') \<Rightarrow> (map_sum (\<lambda>m. m) BoolValue r, s'))"

section \<open>The Express pipeline\<close>

text \<open>
  What the middleware reads of a request: the method, \<open>req.originalUrl\<close>, the cookies
  parsed by cookie-parser (\<open>req.cookies\<close>, which \<open>jwtAuth\<close> reads with \<open>?.\<close>),
  \<open>req.userId\<close>, the route parameter \<open>:id\<close>, the fields of the parsed body, and the
  anti-forgery token csurf finds in the body, the query or the headers.
\<close>

record request =
  req_method :: string
  originalUrl :: string
  cookies :: "(string \<Rightarrow> string option) option"
  req_userId :: "string option"
  params_id :: string
  body :: "string \<Rightarrow> string option"
  csrf_token :: "string option"

text \<open>The error objects passed to \<open>next(err)\<close>: \<open>err.code\<close> and \<open>err.message\<close>.\<close>

record http_error =
  err_code :: string
  err_message :: string

text \<open>
  What a handler sends: a redirect (with the cookie it set, if any), a rendered view with
  its status and locals, or JSON. \<open>Rejected m\<close> is an \<open>async\<close> handler whose promise
  rejects with message \<open>m\<close> before it sends anything.
\<close>

datatype response =
    Redirect string
  | RedirectSetCookie string string string
  | RenderForm nat string "(string \<times> string) list" string
  | RenderTodos nat "todo list" "user option" "(string \<times> string) list"
  | RenderError nat string
  | JsonErrors nat string
  | Rejected string

text \<open>A middleware calls \<open>next()\<close>, calls \<open>next(err)\<close>, or sends the response itself.\<close>

datatype control = Next | NextErr http_error | Responded response

subsection \<open>middleware/auth.ts\<close>

text \<open>
  \<^verbatim>\<open>
  const token = req.cookies?.token;
  if (token) {
    try {
      const payload = jwt.verify(token, JWT_SECRET) as JwtPayload & { userId: string };
      if (payload.userId) { req.userId = payload.userId; }
    } catch (err) { console.error("JWT verification failed:", err); }
  }
  next();
  \<close>
\<close>

definition cookie :: "request \<Rightarrow> string \<Rightarrow> string option" where
  "cookie req name = (case cookies req of None \<Rightarrow> None | Some c \<Rightarrow> c name)"

definition jwtAuth :: "lib \<Rightarrow> request \<Rightarrow> request \<times> control" where
  "jwtAuth L req =
     (case truthy (cookie req ''token'') of
        None \<Rightarrow> (req, Next)
      | Some tok \<Rightarrow>
          (case jwt_verify L tok of
             JwtThrows err \<Rightarrow> (req, Next)
           | JwtPayload p \<Rightarrow>
               (case truthy p of
                  None \<Rightarrow> (req, Next)
                | Some uid \<Rightarrow> (req\<lparr>req_userId := Some uid\<rparr>, Next))))"

definition ensureAuth :: "request \<Rightarrow> control" where
  "ensureAuth req =
     (case truthy (req_userId req) of
        None \<Rightarrow> Responded (Redirect ''/login'')
      | Some uid \<Rightarrow> Next)"

subsection \<open>index.ts: the anti-forgery dispatch and the error handlers\<close>

text \<open>\<open>String.prototype.startsWith\<close>.\<close>

definition startsWith :: "string \<Rightarrow> string \<Rightarrow> bool" where
  "startsWith s p = prefix p s"

text \<open>
  The csurf middleware as configured (\<open>csurf({ cookie: {...} })\<close>, default
  \<open>ignoreMethods\<close>): the secret is the \<open>_csrf\<close> cookie, or a new one when the cookie is
  missing or empty; GET, HEAD and
  OPTIONS pass unchecked; every other method passes only with a token that verifies
  against the secret, and is otherwise handed the error \<open>EBADCSRFTOKEN\<close>.
\<close>

definition csrfSecret :: "lib \<Rightarrow> request \<Rightarrow> string" where
  "csrfSecret L req =
     (case truthy (cookie req ''_csrf'') of None \<Rightarrow> csrf_secret_new L | Some sec \<Rightarrow> sec)"

definition csrfTokenValid :: "lib \<Rightarrow> request \<Rightarrow> bool" where
  "csrfTokenValid L req =
     (case csrf_token req of None \<Rightarrow> False | Some t \<Rightarrow> csrf_verify L (csrfSecret L req) t)"

definition csrfProtection :: "lib \<Rightarrow> request \<Rightarrow> http_error option" where
  "csrfProtection L req =
     (if req_method req = ''GET'' \<or> req_method req = ''HEAD'' \<or> req_method req = ''OPTIONS'' then None
      else if csrfTokenValid L req then None
      else Some \<lparr>err_code = ''EBADCSRFTOKEN'', err_message = ''invalid csrf token''\<rparr>)"

text \<open>
  \<^verbatim>\<open>
  const urlPath = req.originalUrl || "";
  if (urlPath.startsWith("/graphql") || urlPath.startsWith("/public") ||
      urlPath === "/favicon.ico") { return next(); }
  csrfProtection(req, res, (err?: any) => {
    if (err) return next(err);
    res.locals.csrfToken = req.csrfToken();
    next();
  });
  \<close>
  \<open>csrfExempt\<close> is the condition of the \<open>if\<close>; \<open>req.originalUrl\<close> is a string, on which
  \<open>|| ""\<close> changes nothing.
\<close>

definition csrfExempt :: "string \<Rightarrow> bool" where
  "csrfExempt urlPath =
     (startsWith urlPath ''/graphql'' \<or> startsWith urlPath ''/public'' \<or> urlPath = ''/favicon.ico'')"

definition csrfDispatch :: "lib \<Rightarrow> request \<Rightarrow> control" where
  "csrfDispatch L req =
     (if csrfExempt (originalUrl req) then Next
      else (case csrfProtection L req of Some err \<Rightarrow> NextErr err | None \<Rightarrow> Next))"

text \<open>
  Where Express sends a request. \<open>req.path\<close> is the URL up to the query string. The API
  is mounted with \<open>app.use("/graphql", ...)\<close>; with Express's default settings (routing
  neither case sensitive nor strict) a mount path matches a request whose path is the
  mount path or continues it after a "/", in any letter case.
\<close>

definition requestPath :: "string \<Rightarrow> string" where
  "requestPath url = takeWhile (\<lambda>c. c \<noteq> CHR ''?'') url"

definition toLowerCase :: "string \<Rightarrow> string" where
  "toLowerCase str =
     map (\<lambda>c. if 65 \<le> (of_char c :: nat) \<and> (of_char c :: nat) \<le> 90
              then char_of ((of_char c :: nat) + 32) else c) str"

definition mountMatches :: "string \<Rightarrow> string \<Rightarrow> bool" where
  "mountMatches mount url =
     (toLowerCase (requestPath url) = mount \<or> prefix (mount @ ''/'') (toLowerCase (requestPath url)))"

text \<open>Step 8, the CSRF error handler.\<close>

definition csrfErrorHandler :: "http_error \<Rightarrow> control" where
  "csrfErrorHandler err =
     (if err_code err = ''EBADCSRFTOKEN''
      then Responded (RenderError 403
             ''Form tampering detected (invalid CSRF token). Please refresh and try again.'')
      else NextErr err)"

text \<open>Step 9, the global error handler (no header has been sent when an error of the
  dispatch reaches it).\<close>

definition globalErrorHandler :: "request \<Rightarrow> http_error \<Rightarrow> response" where
  "globalErrorHandler req err =
     (if startsWith (originalUrl req) ''/graphql''
      then JsonErrors 500 (orMessage (err_message err) ''Internal server error'')
      else RenderError 500 (orMessage (err_message err) ''Something went wrong''))"

text \<open>
  The pipeline from the dispatch on. Express skips every ordinary middleware after
  \<open>next(err)\<close> and calls the error handlers in order. \<open>rest\<close> is what the middleware
  mounted after the dispatch does with a request and the store (the rate limiter, the
  static files, the web routes and the GraphQL endpoint).
\<close>

definition fromCsrfDispatch :: "lib \<Rightarrow> (request \<Rightarrow> store \<Rightarrow> response \<times> store) \<Rightarrow> request \<Rightarrow> store \<Rightarrow> response \<times> store" where
  "fromCsrfDispatch L rest req s =
     (case csrfDispatch L req of
        Next \<Rightarrow> rest req s
      | Responded r \<Rightarrow> (r, s)
      | NextErr err \<Rightarrow>
          (case csrfErrorHandler err of
             Responded r \<Rightarrow> (r, s)
           | NextErr err' \<Rightarrow> (globalErrorHandler req err', s)
           | Next \<Rightarrow> (globalErrorHandler req err, s)))"

subsection \<open>routes/web.ts\<close>

text \<open>
  The characters \<open>\s\<close> matches among the code units below 256, and validator.js's
  \<open>trim\<close>, which strips them from both ends. express-validator reads a missing field as
  the empty string, and a sanitizer writes its result back to \<open>req.body\<close>.
\<close>

definition isWhitespace :: "char \<Rightarrow> bool" where
  "isWhitespace c = (of_char c \<in> {9, 10, 11, 12, 13, 32, 160 :: nat})"

definition trim :: "string \<Rightarrow> string" where
  "trim s = rev (dropWhile isWhitespace (rev (dropWhile isWhitespace s)))"

definition field :: "request \<Rightarrow> string \<Rightarrow> string" where
  "field req name = (case body req name of None \<Rightarrow> [] | Some v \<Rightarrow> v)"

text \<open>
  POST /register: \<open>body("username").trim().isLength({ min: 3 })\<close>,
  \<open>body("password").isStrongPassword({...})\<close>, the custom validator of
  \<open>confirmPassword\<close> (which compares the two body values as they were sent), then the
  handler.
\<close>

definition web_register :: "lib \<Rightarrow> objectId \<Rightarrow> request \<Rightarrow> store \<Rightarrow> response \<times> store" where
  "web_register L newId req s =
     (let uname = trim (field req ''username'');
          errors =
            (if length uname < 3
             then [(''username'', ''Username must be at least 3 characters'')] else []) @
            (if \<not> isStrongPassword L (field req ''password'')
             then [(''password'',
                    ''Password must be at least 8 chars, include uppercase, lowercase, number & symbol'')]
             else []) @
            (if body req ''confirmPassword'' \<noteq> body req ''password''
             then [(''confirmPassword'', ''Passwords do not match'')] else [])
      in if errors \<noteq> [] then (RenderForm 400 ''register'' errors uname, s)
         else if User_findOne uname (User s) \<noteq> None
         then (RenderForm 400 ''register'' [(''username'', ''Username already taken'')] uname, s)
         else (case User_create L newId uname (field req ''password'') (User s) of
                 Inl m \<Rightarrow> (Rejected m, s)
               | Inr (u, us) \<Rightarrow> (Redirect ''/login'', s\<lparr>User := us\<rparr>)))"

text \<open>
  POST /login: \<open>body("username").trim().notEmpty()\<close>, \<open>body("password").notEmpty()\<close>,
  then the handler.
\<close>

definition web_login :: "lib \<Rightarrow> request \<Rightarrow> store \<Rightarrow> response" where
  "web_login L req s =
     (let uname = trim (field req ''username'');
          pw = field req ''password'';
          errors = (if uname = [] then [(''username'', ''Username is required'')] else []) @
                   (if pw = [] then [(''password'', ''Password cannot be blank'')] else [])
      in if errors \<noteq> [] then RenderForm 400 ''login'' errors uname
         else (case User_findOne uname (User s) of
                 None \<Rightarrow>
                   RenderForm 400 ''login'' [(''password'', ''Invalid username or password'')] uname
               | Some u \<Rightarrow>
                   (if \<not> comparePassword L (password u) pw
                    then RenderForm 400 ''login'' [(''password'', ''Invalid username or password'')] uname
                    else RedirectSetCookie ''/todos'' ''token''
                           (jwt_sign L (ObjectId_toString L (user_id u)) ''2h''))))"

text \<open>
  The routes below are mounted behind \<open>ensureAuth\<close>, which answers with the redirect to
  /login unless \<open>req.userId\<close> is truthy; this is the first case of each definition. In the
  other case the handler reads \<open>req.userId\<close> as \<open>userId\<close>, and Mongoose casts that string
  (and the route parameter \<open>:id\<close>) to an ObjectId; a failed cast rejects the query or the
  save.

  POST /todos/add: \<open>ensureAuth\<close>, \<open>body("text").trim().notEmpty()\<close>, then the handler,
  which saves the sanitized \<open>req.body.text\<close>.
\<close>

definition web_add :: "lib \<Rightarrow> objectId \<Rightarrow> int \<Rightarrow> request \<Rightarrow> store \<Rightarrow> response \<times> store" where
  "web_add L newId now req s =
     (case truthy (req_userId req) of
        None \<Rightarrow> (Redirect ''/login'', s)
      | Some uid \<Rightarrow>
          (let txt = trim (field req ''text'')
           in if txt = []
              then (case ObjectId_new L uid of
                      Inl m \<Rightarrow> (Rejected m, s)
                    | Inr u \<Rightarrow>
                        (RenderTodos 400 (sort_createdAt_desc (Todo_find u (Todo s)))
                           (find (\<lambda>x. user_id x = u) (User s))
                           [(''text'', ''Todo text cannot be empty'')], s))
              else (case ObjectId_new L uid of
                      Inl m \<Rightarrow> (Rejected m, s)
                    | Inr u \<Rightarrow>
                        (case Todo_create newId now txt u (Todo s) of
                           Inl m \<Rightarrow> (Rejected m, s)
                         | Inr (d, ds) \<Rightarrow> (Redirect ''/todos'', s\<lparr>Todo := ds\<rparr>)))))"

text \<open>
  \<^verbatim>\<open>
  router.post("/todos/:id/toggle", ensureAuth, async (req, res) => {
    const userId = req.userId!;
    const todo = await Todo.findOne({ _id: req.params.id, userId });
    if (todo) { todo.completed = !todo.completed; await todo.save(); }
    res.redirect("/todos");
  });
  \<close>
\<close>

definition web_toggle :: "lib \<Rightarrow> request \<Rightarrow> store \<Rightarrow> response \<times> store" where
  "web_toggle L req s =
     (case truthy (req_userId req) of
        None \<Rightarrow> (Redirect ''/login'', s)
      | Some uid \<Rightarrow>
          (case ObjectId_new L (params_id req) of
             Inl m \<Rightarrow> (Rejected m, s)
           | Inr oid \<Rightarrow>
               (case ObjectId_new L uid of
                  Inl m \<Rightarrow> (Rejected m, s)
                | Inr u \<Rightarrow>
                    (case Todo_findOne oid u (Todo s) of
                       None \<Rightarrow> (Redirect ''/todos'', s)
                     | Some t \<Rightarrow>
                         (Redirect ''/todos'',
                          s\<lparr>Todo := Todo_save_completed (todo_id t) (\<not> completed t) (Todo s)\<rparr>)))))"

text \<open>
  \<^verbatim>\<open>
  router.post("/todos/:id/delete", ensureAuth, async (req, res) => {
    const userId = req.userId!;
    await Todo.deleteOne({ _id: req.params.id, userId });
    res.redirect("/todos");
  });
  \<close>
\<close>

definition web_delete :: "lib \<Rightarrow> request \<Rightarrow> store \<Rightarrow> response \<times> store" where
  "web_delete L req s =
     (case truthy (req_userId req) of
        None \<Rightarrow> (Redirect ''/login'', s)
      | Some uid \<Rightarrow>
          (case ObjectId_new L (params_id req) of
             Inl m \<Rightarrow> (Rejected m, s)
           | Inr oid \<Rightarrow>
               (case ObjectId_new L uid of
                  Inl m \<Rightarrow> (Rejected m, s)
                | Inr u \<Rightarrow> (Redirect ''/todos'', s\<lparr>Todo := fst (Todo_deleteOne oid u (Todo s))\<rparr>))))"

section \<open>An instance of the library parameters and a sample store\<close>

text \<open>
  To run the model on concrete requests the parameters need values. \<open>lib0\<close> reads an
  ObjectId from 24 hexadecimal digits (as bson does) and prints it back in lower case;
  a token is the user id behind a fixed prefix; a
  password hash is the password behind a prefix; an anti-forgery token verifies when it
  equals the secret; a password is strong when it has 8 characters or more with a lower
  case letter, an upper case letter, a digit and one of validator.js's symbols. Dates
  print in the ISO 8601 format of \<open>Date.prototype.toISOString\<close>.
\<close>

definition hexDigit :: "char \<Rightarrow> nat option" where
  "hexDigit c =
     (let n = (of_char c :: nat)
      in if 48 \<le> n \<and> n \<le> 57 then Some (n - 48)
         else if 97 \<le> n \<and> n \<le> 102 then Some (n - 87)
         else if 65 \<le> n \<and> n \<le> 70 then Some (n - 55)
         else None)"

fun hexValue :: "nat \<Rightarrow> string \<Rightarrow> nat option" where
  "hexValue acc [] = Some acc"
| "hexValue acc (c # cs) =
     (case hexDigit c of None \<Rightarrow> None | Some d \<Rightarrow> hexValue (16 * acc + d) cs)"

fun hexString :: "nat \<Rightarrow> nat \<Rightarrow> string" where
  "hexString 0 n = []"
| "hexString (Suc k) n = hexString k (n div 16) @ [''0123456789abcdef'' ! (n mod 16)]"

definition bsonObjectId :: "string \<Rightarrow> string + objectId" where
  "bsonObjectId s =
     (if length s = 24
      then (case hexValue 0 s of
              Some n \<Rightarrow> Inr (ObjectId n)
            | None \<Rightarrow> Inl ''input must be a 24 character hex string, 12 byte Uint8Array, or an integer'')
      else Inl ''input must be a 24 character hex string, 12 byte Uint8Array, or an integer'')"

definition bsonToString :: "objectId \<Rightarrow> string" where
  "bsonToString i = (case i of ObjectId n \<Rightarrow> hexString 24 n)"

definition isLower :: "char \<Rightarrow> bool" where
  "isLower c = (97 \<le> (of_char c :: nat) \<and> (of_char c :: nat) \<le> 122)"

definition isUpper :: "char \<Rightarrow> bool" where
  "isUpper c = (65 \<le> (of_char c :: nat) \<and> (of_char c :: nat) \<le> 90)"

definition isDigit :: "char \<Rightarrow> bool" where
  "isDigit c = (48 \<le> (of_char c :: nat) \<and> (of_char c :: nat) \<le> 57)"

text \<open>The characters of validator.js's symbol class, by code: space, and
  \<^verbatim>\<open>! " # $ % & ' ( ) * + , - . / : ; < = > ? @ [ ] ^ _ ` { | } ~\<close>.\<close>

definition isSymbol :: "char \<Rightarrow> bool" where
  "isSymbol c =
     ((of_char c :: nat) \<in> set [32, 33, 34, 35, 36, 37, 38, 39, 40, 41, 42, 43, 44, 45, 46, 47,
                                  58, 59, 60, 61, 62, 63, 64, 91, 93, 94, 95, 96, 123, 124, 125, 126])"

text \<open>\<open>digits k n\<close>: the last \<open>k\<close> decimal digits of \<open>n\<close>. \<open>isoString t\<close>: the date that is
  \<open>t\<close> milliseconds after 1970-01-01T00:00:00Z, in the proleptic Gregorian calendar.\<close>

fun digits :: "nat \<Rightarrow> nat \<Rightarrow> string" where
  "digits 0 n = []"
| "digits (Suc k) n = digits k (n div 10) @ [''0123456789'' ! (n mod 10)]"

definition formatDate :: "int \<Rightarrow> int \<Rightarrow> int \<Rightarrow> int \<Rightarrow> string" where
  "formatDate y m d ms =
     (if 0 \<le> y \<and> y \<le> 9999 then digits 4 (nat y)
      else (if y < 0 then ''-'' else ''+'') @ digits 6 (nat \<bar>y\<bar>)) @
     ''-'' @ digits 2 (nat m) @ ''-'' @ digits 2 (nat d) @ ''T'' @
     digits 2 (nat (ms div 3600000)) @ '':'' @ digits 2 (nat (ms div 60000 mod 60)) @ '':'' @
     digits 2 (nat (ms div 1000 mod 60)) @ ''.'' @ digits 3 (nat (ms mod 1000)) @ ''Z''"

text \<open>The civil date of a day number, in steps: the 400-year era and the day in it, the
  year in the era, the day in the year (years start in March), the month.\<close>

definition dateOfMonthIndex :: "int \<Rightarrow> int \<Rightarrow> int \<Rightarrow> int \<Rightarrow> string" where
  "dateOfMonthIndex y doy mp ms =
     formatDate (if mp < 10 then y else y + 1) (if mp < 10 then mp + 3 else mp - 9)
       (doy - (153 * mp + 2) div 5 + 1) ms"

definition dateOfDayOfYear :: "int \<Rightarrow> int \<Rightarrow> int \<Rightarrow> string" where
  "dateOfDayOfYear y doy ms = dateOfMonthIndex y doy ((5 * doy + 2) div 153) ms"

definition dateOfYearOfEra :: "int \<Rightarrow> int \<Rightarrow> int \<Rightarrow> int \<Rightarrow> string" where
  "dateOfYearOfEra era doe yoe ms =
     dateOfDayOfYear (yoe + era * 400) (doe - (365 * yoe + yoe div 4 - yoe div 100)) ms"

definition dateOfDayOfEra :: "int \<Rightarrow> int \<Rightarrow> int \<Rightarrow> string" where
  "dateOfDayOfEra era doe ms =
     dateOfYearOfEra era doe ((doe - doe div 1460 + doe div 36524 - doe div 146096) div 365) ms"

definition isoString :: "int \<Rightarrow> string" where
  "isoString t =
     dateOfDayOfEra ((t div 86400000 + 719468) div 146097) ((t div 86400000 + 719468) mod 146097)
       (t mod 86400000)"

definition lib0 :: lib where
  "lib0 =
     \<lparr>ObjectId_new = bsonObjectId,
      ObjectId_toString = bsonToString,
      toISOString = isoString,
      jwt_verify = (\<lambda>tok. if take 7 tok = ''signed:'' then JwtPayload (Some (drop 7 tok))
                           else JwtThrows ''jwt malformed''),
      jwt_sign = (\<lambda>uid expiresIn. ''signed:'' @ uid),
      hashPassword = (\<lambda>pw. ''hash:'' @ pw),
      comparePassword = (\<lambda>stored candidate. stored = ''hash:'' @ candidate),
      csrf_verify = (\<lambda>secret token. token = secret),
      csrf_secret_new = ''new-secret'',
      isStrongPassword = (\<lambda>pw. 8 \<le> length pw \<and> list_ex isLower pw \<and> list_ex isUpper pw \<and>
                                 list_ex isDigit pw \<and> list_ex isSymbol pw)\<rparr>"

text \<open>Two users; two tasks of the first and, between them, one of the second.\<close>

definition aliceId :: string where
  "aliceId = ''000000000000000000000001''"

definition bobId :: string where
  "bobId = ''000000000000000000000002''"

definition milkId :: string where
  "milkId = ''00000000000000000000000a''"

definition alice :: user where
  "alice = \<lparr>user_id = ObjectId 1, username = ''alice'', password = ''hash:Abcd1234!''\<rparr>"

definition bob :: user where
  "bob = \<lparr>user_id = ObjectId 2, username = ''bob'', password = ''hash:Wxyz9876?''\<rparr>"

definition milk :: todo where
  "milk = \<lparr>todo_id = ObjectId 10, todo_text = ''buy milk'', completed = False,
           createdAt = 1000, userId = ObjectId 1\<rparr>"

definition bread :: todo where
  "bread = \<lparr>todo_id = ObjectId 11, todo_text = ''bake bread'', completed = True,
            createdAt = 2000, userId = ObjectId 2\<rparr>"

definition eggs :: todo where
  "eggs = \<lparr>todo_id = ObjectId 12, todo_text = ''boil eggs'', completed = False,
           createdAt = 3000, userId = ObjectId 1\<rparr>"

definition store0 :: store where
  "store0 = \<lparr>Todo = [milk, bread, eggs], User = [alice, bob]\<rparr>"

text \<open>A request with nothing in it, to be filled in.\<close>

definition request0 :: request where
  "request0 =
     \<lparr>req_method = ''POST'', originalUrl = ''/'', cookies = Some (\<lambda>name. None),
      req_userId = None, params_id = [], body = (\<lambda>name. None), csrf_token = None\<rparr>"

definition asUser :: "string \<Rightarrow> AuthContext" where
  "asUser uid = \<lparr>ctx_userId = Some uid\<rparr>"

section \<open>Proofs\<close>

subsection \<open>Helper facts about the collections\<close>

lemma same_id_same_doc:
  "distinct (map todo_id ds) \<Longrightarrow> d \<in> set ds \<Longrightarrow> t \<in> set ds \<Longrightarrow> todo_id d = todo_id t \<Longrightarrow> d = t"
  by (meson distinct_map inj_on_eq_iff)

lemma Todo_findOne_Some:
  "Todo_findOne oid u ds = Some t \<Longrightarrow> t \<in> set ds \<and> todo_id t = oid \<and> userId t = u"
  unfolding Todo_findOne_def by (auto simp: find_Some_iff)

lemma Todo_findOne_None:
  "Todo_findOne oid u ds = None \<longleftrightarrow> (\<forall>d \<in> set ds. \<not> (todo_id d = oid \<and> userId d = u))"
  unfolding Todo_findOne_def by (auto simp: find_None_iff)

lemma Todo_save_completed_map:
  "distinct (map todo_id ds) \<Longrightarrow>
   Todo_save_completed oid b ds = map (\<lambda>d. if todo_id d = oid then d\<lparr>completed := b\<rparr> else d) ds"
proof (induction ds)
  case Nil
  then show ?case by simp
next
  case (Cons d ds)
  show ?case
  proof (cases "todo_id d = oid")
    case True
    with Cons.prems have "\<forall>x \<in> set ds. todo_id x \<noteq> oid" by (auto simp: image_iff)
    then have "map (\<lambda>d. if todo_id d = oid then d\<lparr>completed := b\<rparr> else d) ds = ds"
      by (simp add: map_idI)
    with True show ?thesis by simp
  next
    case False
    with Cons show ?thesis by simp
  qed
qed

lemma Todo_save_completed_toggle:
  assumes "distinct (map todo_id ds)" and "Todo_findOne oid u ds = Some t"
  shows "Todo_save_completed (todo_id t) (\<not> completed t) ds =
         map (\<lambda>d. if todo_id d = oid then d\<lparr>completed := \<not> completed d\<rparr> else d) ds"
proof -
  from assms(2) have t: "t \<in> set ds" "todo_id t = oid" "userId t = u"
    using Todo_findOne_Some by blast+
  have "\<And>d. d \<in> set ds \<Longrightarrow> todo_id d = oid \<Longrightarrow> d = t"
    using same_id_same_doc [OF assms(1)] t by blast
  then have "map (\<lambda>d. if todo_id d = oid then d\<lparr>completed := \<not> completed t\<rparr> else d) ds =
             map (\<lambda>d. if todo_id d = oid then d\<lparr>completed := \<not> completed d\<rparr> else d) ds"
    by (intro map_cong) auto
  then show ?thesis
    using Todo_save_completed_map [OF assms(1), of oid "\<not> completed t"] t by simp
qed

lemma Todo_findOne_toggled:
  assumes "Todo_findOne oid u ds = Some t"
  shows "Todo_findOne oid u (map (\<lambda>d. if todo_id d = oid then d\<lparr>completed := \<not> completed d\<rparr> else d) ds)
         = Some (t\<lparr>completed := \<not> completed t\<rparr>)"
  using assms unfolding Todo_findOne_def
  by (induction ds) (auto split: if_splits)

lemma toggle_map_twice:
  "map (\<lambda>d. if todo_id d = oid then d\<lparr>completed := \<not> completed d\<rparr> else d)
     (map (\<lambda>d. if todo_id d = oid then d\<lparr>completed := \<not> completed d\<rparr> else d) ds) = ds"
  by (induction ds) auto

lemma distinct_ids_toggled:
  "map todo_id (map (\<lambda>d. if todo_id d = oid then d\<lparr>completed := \<not> completed d\<rparr> else d) ds) = map todo_id ds"
  by (induction ds) auto


lemma Todo_findOne_own:
  "distinct (map todo_id ds) \<Longrightarrow> t \<in> set ds \<Longrightarrow> Todo_findOne (todo_id t) (userId t) ds = Some t"
  unfolding Todo_findOne_def
  by (induction ds) (auto simp: image_iff)

lemma toggle_map_eq:
  assumes "distinct (map todo_id ds)" and "t \<in> set ds"
  shows "map (\<lambda>d. if todo_id d = todo_id t then d\<lparr>completed := \<not> completed d\<rparr> else d) ds =
         map (\<lambda>d. if d = t then d\<lparr>completed := \<not> completed d\<rparr> else d) ds"
  using same_id_same_doc [OF assms(1) _ assms(2)] by (intro map_cong) auto
subsection \<open>Toggling a task\<close>

text \<open>What a toggle by the owner does, on the API and on the web route.\<close>

lemma toggleTodo_owner:
  assumes "unique_ids s" and "t \<in> set (Todo s)"
    and "ObjectId_new L ident = Inr (todo_id t)" and "ObjectId_new L uid = Inr (userId t)"
    and "ctx_userId ctx = Some uid" and "uid \<noteq> []"
  shows "toggleTodo L ctx ident s =
         (Inr (todoPayload L (t\<lparr>completed := \<not> completed t\<rparr>)),
          s\<lparr>Todo := map (\<lambda>d. if todo_id d = todo_id t then d\<lparr>completed := \<not> completed d\<rparr> else d) (Todo s)\<rparr>)"
proof -
  have d: "distinct (map todo_id (Todo s))" using assms(1) by (simp add: unique_ids_def)
  have f: "Todo_findOne (todo_id t) (userId t) (Todo s) = Some t"
    by (rule Todo_findOne_own [OF d assms(2)])
  show ?thesis
    using assms(3-6) f Todo_save_completed_toggle [OF d f]
    by (simp add: toggleTodo_def toggleTodo_try_def truthy_def)
qed

lemma web_toggle_owner:
  assumes "unique_ids s" and "t \<in> set (Todo s)"
    and "ObjectId_new L (params_id req) = Inr (todo_id t)" and "ObjectId_new L uid = Inr (userId t)"
    and "req_userId req = Some uid" and "uid \<noteq> []"
  shows "web_toggle L req s =
         (Redirect ''/todos'',
          s\<lparr>Todo := map (\<lambda>d. if todo_id d = todo_id t then d\<lparr>completed := \<not> completed d\<rparr> else d) (Todo s)\<rparr>)"
proof -
  have d: "distinct (map todo_id (Todo s))" using assms(1) by (simp add: unique_ids_def)
  have f: "Todo_findOne (todo_id t) (userId t) (Todo s) = Some t"
    by (rule Todo_findOne_own [OF d assms(2)])
  show ?thesis
    using assms(3-6) f Todo_save_completed_toggle [OF d f]
    by (simp add: web_toggle_def truthy_def)
qed

lemma toggled_store:
  assumes "unique_ids s" and "t \<in> set (Todo s)"
  defines "s1 \<equiv> s\<lparr>Todo := map (\<lambda>d. if todo_id d = todo_id t then d\<lparr>completed := \<not> completed d\<rparr> else d) (Todo s)\<rparr>"
  shows "unique_ids s1" and "t\<lparr>completed := \<not> completed t\<rparr> \<in> set (Todo s1)"
    and "Todo_findOne (todo_id t) (userId t) (Todo s1) = Some (t\<lparr>completed := \<not> completed t\<rparr>)"
    and "s1\<lparr>Todo := map (\<lambda>d. if todo_id d = todo_id t then d\<lparr>completed := \<not> completed d\<rparr> else d) (Todo s1)\<rparr> = s"
proof -
  have d: "distinct (map todo_id (Todo s))" using assms(1) by (simp add: unique_ids_def)
  show "unique_ids s1" using d distinct_ids_toggled [of "todo_id t" "Todo s"]
    by (simp add: unique_ids_def s1_def del: map_map)
  show "t\<lparr>completed := \<not> completed t\<rparr> \<in> set (Todo s1)"
    using assms(2) by (force simp: s1_def)
  show "Todo_findOne (todo_id t) (userId t) (Todo s1) = Some (t\<lparr>completed := \<not> completed t\<rparr>)"
    using Todo_findOne_toggled [OF Todo_findOne_own [OF d assms(2)]] by (simp add: s1_def)
  show "s1\<lparr>Todo := map (\<lambda>d. if todo_id d = todo_id t then d\<lparr>completed := \<not> completed d\<rparr> else d) (Todo s1)\<rparr> = s"
    by (simp add: s1_def toggle_map_twice del: map_map)
qed

text \<open>
  C6. For every task, two toggles in succession by its owner return the task's
  \<open>completed\<close> flag to the value it had before the first one. Here \<open>t\<close> is a task of a
  store whose \<open>_id\<close>s are unique, \<open>ident\<close> is its id as the caller sends it and \<open>uid\<close> the
  identifier of its owner. On the API the first toggle returns the task with the flag
  flipped and the second returns the task as it was; on the web route both redirect to
  /todos; on both, the store after the second toggle is the store before the first.
\<close>

theorem toggle_twice_restores_completed:
  assumes "unique_ids s" and "t \<in> set (Todo s)"
    and "ObjectId_new L ident = Inr (todo_id t)" and "ObjectId_new L uid = Inr (userId t)"
    and "uid \<noteq> []" and "ctx_userId ctx = Some uid"
    and "req_userId req = Some uid" and "params_id req = ident"
  shows "(\<exists>s1. toggleTodo L ctx ident s = (Inr (todoPayload L (t\<lparr>completed := \<not> completed t\<rparr>)), s1) \<and>
              Todo_findOne (todo_id t) (userId t) (Todo s1) = Some (t\<lparr>completed := \<not> completed t\<rparr>) \<and>
              toggleTodo L ctx ident s1 = (Inr (todoPayload L t), s)) \<and>
         (\<exists>s1. web_toggle L req s = (Redirect ''/todos'', s1) \<and>
              Todo_findOne (todo_id t) (userId t) (Todo s1) = Some (t\<lparr>completed := \<not> completed t\<rparr>) \<and>
              web_toggle L req s1 = (Redirect ''/todos'', s))"
proof -
  let ?s1 = "s\<lparr>Todo := map (\<lambda>d. if todo_id d = todo_id t then d\<lparr>completed := \<not> completed d\<rparr> else d) (Todo s)\<rparr>"
  let ?t1 = "t\<lparr>completed := \<not> completed t\<rparr>"
  note s1 = toggled_store [OF assms(1,2)]
  have a1: "toggleTodo L ctx ident s = (Inr (todoPayload L ?t1), ?s1)"
    by (rule toggleTodo_owner [OF assms(1,2,3,4,6,5)])
  have a2: "toggleTodo L ctx ident ?s1 = (Inr (todoPayload L t), s)"
    using toggleTodo_owner [OF s1(1) s1(2), of L ident uid ctx] assms(3-6) s1(4) by simp
  have w1: "web_toggle L req s = (Redirect ''/todos'', ?s1)"
    using web_toggle_owner [OF assms(1,2) _ assms(4,7,5)] assms(3,8) by simp
  have w2: "web_toggle L req ?s1 = (Redirect ''/todos'', s)"
    using web_toggle_owner [OF s1(1) s1(2), of L req uid] assms(3-8) s1(4) by simp
  from a1 a2 w1 w2 s1(3) show ?thesis by blast
qed


theorem toggle_twice_restores_completed_witness:
  "unique_ids store0 \<and> milk \<in> set (Todo store0) \<and>
   ObjectId_new lib0 milkId = Inr (todo_id milk) \<and> ObjectId_new lib0 aliceId = Inr (userId milk) \<and>
   aliceId \<noteq> [] \<and> completed milk = False \<and>
   (\<exists>s1. toggleTodo lib0 (asUser aliceId) milkId store0 =
            (Inr (todoPayload lib0 (milk\<lparr>completed := True\<rparr>)), s1) \<and>
         Todo_findOne (todo_id milk) (userId milk) (Todo s1) = Some (milk\<lparr>completed := True\<rparr>) \<and>
         toggleTodo lib0 (asUser aliceId) milkId s1 = (Inr (todoPayload lib0 milk), store0)) \<and>
   (\<exists>s1. web_toggle lib0 (request0\<lparr>req_userId := Some aliceId, params_id := milkId\<rparr>) store0 =
            (Redirect ''/todos'', s1) \<and>
         Todo_findOne (todo_id milk) (userId milk) (Todo s1) = Some (milk\<lparr>completed := True\<rparr>) \<and>
         web_toggle lib0 (request0\<lparr>req_userId := Some aliceId, params_id := milkId\<rparr>) s1 =
            (Redirect ''/todos'', store0))"
proof -
  have h1: "unique_ids store0" by code_simp
  have h2: "milk \<in> set (Todo store0)" by (simp add: store0_def)
  have h3: "ObjectId_new lib0 milkId = Inr (todo_id milk)" by code_simp
  have h4: "ObjectId_new lib0 aliceId = Inr (userId milk)" by code_simp
  have h5: "aliceId \<noteq> []" by (simp add: aliceId_def)
  have h6: "ctx_userId (asUser aliceId) = Some aliceId" by (simp add: asUser_def)
  have h7: "req_userId (request0\<lparr>req_userId := Some aliceId, params_id := milkId\<rparr>) = Some aliceId"
    by simp
  have h8: "params_id (request0\<lparr>req_userId := Some aliceId, params_id := milkId\<rparr>) = milkId"
    by simp
  have c: "completed milk = False" by (simp add: milk_def)
  show ?thesis
    using toggle_twice_restores_completed [OF h1 h2 h3 h4 h5 h6 h7 h8] h1 h2 h3 h4 h5 c
    by simp
qed

text \<open>
  C7. A toggle by the owner changes only the \<open>completed\<close> flag of that task: the store
  after it is the store before it with \<open>completed\<close> negated in the document \<open>t\<close> and in
  no other; the text, \<open>createdAt\<close>, the owner and the \<open>_id\<close> of \<open>t\<close>, every other task
  and the users are as they were. The payload the API returns carries the same id, text
  and date.
\<close>

theorem toggle_changes_only_completed:
  assumes "unique_ids s" and "t \<in> set (Todo s)"
    and "ObjectId_new L ident = Inr (todo_id t)" and "ObjectId_new L uid = Inr (userId t)"
    and "uid \<noteq> []" and "ctx_userId ctx = Some uid"
    and "req_userId req = Some uid" and "params_id req = ident"
  shows "snd (toggleTodo L ctx ident s) =
           s\<lparr>Todo := map (\<lambda>d. if d = t then d\<lparr>completed := \<not> completed d\<rparr> else d) (Todo s)\<rparr> \<and>
         snd (web_toggle L req s) =
           s\<lparr>Todo := map (\<lambda>d. if d = t then d\<lparr>completed := \<not> completed d\<rparr> else d) (Todo s)\<rparr> \<and>
         fst (toggleTodo L ctx ident s) =
           Inr \<lparr>payload_id = ObjectId_toString L (todo_id t), payload_text = todo_text t,
                payload_completed = (\<not> completed t),
                payload_createdAt = toISOString L (createdAt t)\<rparr>"
proof -
  have d: "distinct (map todo_id (Todo s))" using assms(1) by (simp add: unique_ids_def)
  note m = toggle_map_eq [OF d assms(2)]
  have a: "snd (toggleTodo L ctx ident s) =
           s\<lparr>Todo := map (\<lambda>d. if d = t then d\<lparr>completed := \<not> completed d\<rparr> else d) (Todo s)\<rparr>"
    using toggleTodo_owner [OF assms(1,2,3,4,6,5)] m by simp
  have w: "snd (web_toggle L req s) =
           s\<lparr>Todo := map (\<lambda>d. if d = t then d\<lparr>completed := \<not> completed d\<rparr> else d) (Todo s)\<rparr>"
    using web_toggle_owner [OF assms(1,2) _ assms(4,7,5)] assms(3,8) m by simp
  have p: "fst (toggleTodo L ctx ident s) =
           Inr \<lparr>payload_id = ObjectId_toString L (todo_id t), payload_text = todo_text t,
                payload_completed = (\<not> completed t),
                payload_createdAt = toISOString L (createdAt t)\<rparr>"
    using toggleTodo_owner [OF assms(1,2,3,4,6,5)] by (simp add: todoPayload_def)
  from a w p show ?thesis by simp
qed

theorem toggle_changes_only_completed_witness:
  "unique_ids store0 \<and> milk \<in> set (Todo store0) \<and>
   ObjectId_new lib0 milkId = Inr (todo_id milk) \<and> ObjectId_new lib0 aliceId = Inr (userId milk) \<and>
   aliceId \<noteq> [] \<and>
   snd (toggleTodo lib0 (asUser aliceId) milkId store0) =
     store0\<lparr>Todo := [milk\<lparr>completed := True\<rparr>, bread, eggs]\<rparr> \<and>
   snd (web_toggle lib0 (request0\<lparr>req_userId := Some aliceId, params_id := milkId\<rparr>) store0) =
     store0\<lparr>Todo := [milk\<lparr>completed := True\<rparr>, bread, eggs]\<rparr>"
proof -
  have h1: "unique_ids store0" by code_simp
  have h2: "milk \<in> set (Todo store0)" by (simp add: store0_def)
  have h3: "ObjectId_new lib0 milkId = Inr (todo_id milk)" by code_simp
  have h4: "ObjectId_new lib0 aliceId = Inr (userId milk)" by code_simp
  have h5: "aliceId \<noteq> []" by (simp add: aliceId_def)
  have h6: "ctx_userId (asUser aliceId) = Some aliceId" by (simp add: asUser_def)
  have h7: "req_userId (request0\<lparr>req_userId := Some aliceId, params_id := milkId\<rparr>) = Some aliceId"
    by simp
  have h8: "params_id (request0\<lparr>req_userId := Some aliceId, params_id := milkId\<rparr>) = milkId"
    by simp
  have m: "map (\<lambda>d. if d = milk then d\<lparr>completed := \<not> completed d\<rparr> else d) (Todo store0) =
           [milk\<lparr>completed := True\<rparr>, bread, eggs]"
    by (simp add: store0_def milk_def bread_def eggs_def)
  show ?thesis
    using toggle_changes_only_completed [OF h1 h2 h3 h4 h5 h6 h7 h8] h1 h2 h3 h4 h5 m
    by simp
qed

subsection \<open>Requests with the id of another user's task\<close>

lemma Todo_deleteOne_none:
  "\<forall>d \<in> set ds. \<not> (todo_id d = oid \<and> userId d = u) \<Longrightarrow> Todo_deleteOne oid u ds = (ds, 0)"
  by (induction ds) auto

lemma Todo_deleteOne_keeps:
  "d \<in> set ds \<Longrightarrow> userId d \<noteq> u \<Longrightarrow> d \<in> set (fst (Todo_deleteOne oid u ds))"
  by (induction ds) auto

lemma Todo_save_completed_keeps:
  assumes "distinct (map todo_id ds)" and "Todo_findOne oid u ds = Some t"
    and "d \<in> set ds" and "userId d \<noteq> u"
  shows "d \<in> set (Todo_save_completed (todo_id t) b ds)"
proof -
  from assms(2) have t: "t \<in> set ds" "userId t = u"
    using Todo_findOne_Some by blast+
  have "todo_id d = todo_id t \<Longrightarrow> d = t"
    by (rule same_id_same_doc [OF assms(1,3) t(1)])
  with t(2) assms(4) have ne: "todo_id d \<noteq> todo_id t" by auto
  have "(if todo_id d = todo_id t then d\<lparr>completed := b\<rparr> else d) \<in>
        (\<lambda>d. if todo_id d = todo_id t then d\<lparr>completed := b\<rparr> else d) ` set ds"
    using assms(3) by (rule imageI)
  with ne have "d \<in> set (map (\<lambda>d. if todo_id d = todo_id t then d\<lparr>completed := b\<rparr> else d) ds)"
    by simp
  then show ?thesis by (simp add: Todo_save_completed_map [OF assms(1)])
qed

lemma no_task_of_other:
  assumes "unique_ids s"
    and "(t \<in> set (Todo s) \<and> todo_id t = oid \<and> userId t \<noteq> b) \<or> oid \<notin> todo_id ` set (Todo s)"
  shows "Todo_findOne oid b (Todo s) = None"
proof -
  have d: "distinct (map todo_id (Todo s))" using assms(1) by (simp add: unique_ids_def)
  have "\<not> (todo_id x = oid \<and> userId x = b)" if x: "x \<in> set (Todo s)" for x
  proof
    assume a: "todo_id x = oid \<and> userId x = b"
    from assms(2) show False
    proof
      assume h: "t \<in> set (Todo s) \<and> todo_id t = oid \<and> userId t \<noteq> b"
      then have "x = t" using same_id_same_doc [OF d x, of t] a by simp
      with a h show False by simp
    next
      assume "oid \<notin> todo_id ` set (Todo s)"
      with x a show False by auto
    qed
  qed
  then show ?thesis by (simp add: Todo_findOne_None)
qed

lemma toggleTodo_keeps_others:
  assumes "unique_ids s" and "ctx_userId ctx = Some uid" and "ObjectId_new L uid = Inr b"
    and "d \<in> set (Todo s)" and "userId d \<noteq> b"
  shows "d \<in> set (Todo (snd (toggleTodo L ctx ident s)))"
proof -
  have u: "distinct (map todo_id (Todo s))" using assms(1) by (simp add: unique_ids_def)
  show ?thesis
    using assms(2-5) Todo_save_completed_keeps [OF u _ assms(4,5)]
    by (auto simp: toggleTodo_def toggleTodo_try_def truthy_def split: option.splits sum.splits if_splits)
qed

lemma web_toggle_keeps_others:
  assumes "unique_ids s" and "req_userId req = Some uid" and "ObjectId_new L uid = Inr b"
    and "d \<in> set (Todo s)" and "userId d \<noteq> b"
  shows "d \<in> set (Todo (snd (web_toggle L req s)))"
proof -
  have u: "distinct (map todo_id (Todo s))" using assms(1) by (simp add: unique_ids_def)
  show ?thesis
    using assms(2-5) Todo_save_completed_keeps [OF u _ assms(4,5)]
    by (auto simp: web_toggle_def truthy_def split: option.splits sum.splits if_splits)
qed

lemma deleteTodo_keeps_others:
  assumes "ctx_userId ctx = Some uid" and "ObjectId_new L uid = Inr b"
    and "d \<in> set (Todo s)" and "userId d \<noteq> b"
  shows "d \<in> set (Todo (snd (deleteTodo L ctx ident s)))"
  using assms Todo_deleteOne_keeps [OF assms(3,4)]
  by (auto simp: deleteTodo_def deleteTodo_try_def Let_def truthy_def split: option.splits sum.splits if_splits)

lemma web_delete_keeps_others:
  assumes "req_userId req = Some uid" and "ObjectId_new L uid = Inr b"
    and "d \<in> set (Todo s)" and "userId d \<noteq> b"
  shows "d \<in> set (Todo (snd (web_delete L req s)))"
  using assms Todo_deleteOne_keeps [OF assms(3,4)]
  by (auto simp: web_delete_def truthy_def split: option.splits sum.splits if_splits)

lemma Todo_query_own:
  "Todo_query b skip tk ds = Inr docs \<Longrightarrow> d \<in> set docs \<Longrightarrow> userId d = b \<and> d \<in> set ds"
  by (auto simp: Todo_query_def Todo_find_def sort_createdAt_desc_def Let_def
      split: if_splits dest!: in_set_takeD in_set_dropD)

text \<open>
  What holds on both surfaces. Let \<open>b\<close> be a user and \<open>ident\<close> an id that parses as an
  ObjectId \<open>oid\<close>, where \<open>oid\<close> is the \<open>_id\<close> of a task \<open>t\<close> of another user, or of no
  task at all. On the API, \<open>b\<close>'s \<open>toggleTodo\<close> and \<open>deleteTodo\<close> with that id fail with
  "Todo not found" and leave the store as it was. On the web routes, \<open>b\<close>'s toggle and
  delete with that id leave the store as it was, and answer with the redirect to /todos.
  Whatever id \<open>b\<close> sends, every task of another user is still in the store after \<open>b\<close>'s
  toggle or delete, and the documents the list query reads for \<open>b\<close> are \<open>b\<close>'s own.
\<close>

theorem foreign_task_untouched:
  assumes "unique_ids s"
    and "(t \<in> set (Todo s) \<and> todo_id t = oid \<and> userId t \<noteq> b) \<or> oid \<notin> todo_id ` set (Todo s)"
    and "ObjectId_new L ident = Inr oid" and "ObjectId_new L uid = Inr b" and "uid \<noteq> []"
    and "ctx_userId ctx = Some uid" and "req_userId req = Some uid" and "params_id req = ident"
  shows "toggleTodo L ctx ident s = (Inl ''Todo not found'', s) \<and>
         deleteTodo L ctx ident s = (Inl ''Todo not found'', s) \<and>
         web_toggle L req s = (Redirect ''/todos'', s) \<and>
         web_delete L req s = (Redirect ''/todos'', s) \<and>
         (\<forall>d ident'. d \<in> set (Todo s) \<and> userId d \<noteq> b \<longrightarrow>
            d \<in> set (Todo (snd (toggleTodo L ctx ident' s))) \<and>
            d \<in> set (Todo (snd (deleteTodo L ctx ident' s))) \<and>
            d \<in> set (Todo (snd (web_toggle L (req\<lparr>params_id := ident'\<rparr>) s))) \<and>
            d \<in> set (Todo (snd (web_delete L (req\<lparr>params_id := ident'\<rparr>) s)))) \<and>
         (\<forall>skip tk docs d. Todo_query b skip tk (Todo s) = Inr docs \<and> d \<in> set docs \<longrightarrow>
            userId d = b \<and> d \<in> set (Todo s))"
proof -
  have n: "Todo_findOne oid b (Todo s) = None"
    by (rule no_task_of_other [OF assms(1,2)])
  then have m: "\<forall>d \<in> set (Todo s). \<not> (todo_id d = oid \<and> userId d = b)"
    by (simp add: Todo_findOne_None)
  have del: "Todo_deleteOne oid b (Todo s) = (Todo s, 0)"
    by (rule Todo_deleteOne_none [OF m])
  have a: "toggleTodo L ctx ident s = (Inl ''Todo not found'', s)"
    using assms(3-6) n by (simp add: toggleTodo_def toggleTodo_try_def truthy_def orMessage_def)
  have b: "deleteTodo L ctx ident s = (Inl ''Todo not found'', s)"
    using assms(3-6) del by (simp add: deleteTodo_def deleteTodo_try_def truthy_def orMessage_def)
  have c: "web_toggle L req s = (Redirect ''/todos'', s)"
    using assms(3-8) n by (simp add: web_toggle_def truthy_def)
  have d: "web_delete L req s = (Redirect ''/todos'', s)"
    using assms(3-8) del by (simp add: web_delete_def truthy_def)
  have e: "\<forall>d ident'. d \<in> set (Todo s) \<and> userId d \<noteq> b \<longrightarrow>
            d \<in> set (Todo (snd (toggleTodo L ctx ident' s))) \<and>
            d \<in> set (Todo (snd (deleteTodo L ctx ident' s))) \<and>
            d \<in> set (Todo (snd (web_toggle L (req\<lparr>params_id := ident'\<rparr>) s))) \<and>
            d \<in> set (Todo (snd (web_delete L (req\<lparr>params_id := ident'\<rparr>) s)))"
    using toggleTodo_keeps_others [OF assms(1,6,4)] deleteTodo_keeps_others [OF assms(6,4)]
      web_toggle_keeps_others [OF assms(1) _ assms(4)] web_delete_keeps_others [OF _ assms(4)]
      assms(7)
    by simp
  have f: "\<forall>skip tk docs d. Todo_query b skip tk (Todo s) = Inr docs \<and> d \<in> set docs \<longrightarrow>
            userId d = b \<and> d \<in> set (Todo s)"
    using Todo_query_own by blast
  from a b c d e f show ?thesis by blast
qed


theorem foreign_task_untouched_witness:
  "unique_ids store0 \<and>
   milk \<in> set (Todo store0) \<and> todo_id milk = ObjectId 10 \<and> userId milk \<noteq> ObjectId 2 \<and>
   ObjectId_new lib0 milkId = Inr (ObjectId 10) \<and> ObjectId_new lib0 bobId = Inr (ObjectId 2) \<and>
   bobId \<noteq> [] \<and>
   toggleTodo lib0 (asUser bobId) milkId store0 = (Inl ''Todo not found'', store0) \<and>
   deleteTodo lib0 (asUser bobId) milkId store0 = (Inl ''Todo not found'', store0) \<and>
   web_toggle lib0 (request0\<lparr>req_userId := Some bobId, params_id := milkId\<rparr>) store0 =
     (Redirect ''/todos'', store0) \<and>
   web_delete lib0 (request0\<lparr>req_userId := Some bobId, params_id := milkId\<rparr>) store0 =
     (Redirect ''/todos'', store0)"
proof -
  have h1: "unique_ids store0" by code_simp
  have m: "milk \<in> set (Todo store0) \<and> todo_id milk = ObjectId 10 \<and> userId milk \<noteq> ObjectId 2"
    by (simp add: store0_def milk_def)
  then have h2: "(milk \<in> set (Todo store0) \<and> todo_id milk = ObjectId 10 \<and> userId milk \<noteq> ObjectId 2) \<or>
                 ObjectId 10 \<notin> todo_id ` set (Todo store0)" by (rule disjI1)
  have h3: "ObjectId_new lib0 milkId = Inr (ObjectId 10)" by code_simp
  have h4: "ObjectId_new lib0 bobId = Inr (ObjectId 2)" by code_simp
  have h5: "bobId \<noteq> []" by (simp add: bobId_def)
  have h6: "ctx_userId (asUser bobId) = Some bobId" by (simp add: asUser_def)
  have h7: "req_userId (request0\<lparr>req_userId := Some bobId, params_id := milkId\<rparr>) = Some bobId"
    by simp
  have h8: "params_id (request0\<lparr>req_userId := Some bobId, params_id := milkId\<rparr>) = milkId"
    by simp
  note T = foreign_task_untouched [OF h1 h2 h3 h4 h5 h6 h7 h8]
  from T have a: "toggleTodo lib0 (asUser bobId) milkId store0 = (Inl ''Todo not found'', store0)"
    by (rule conjunct1)
  from T have b: "deleteTodo lib0 (asUser bobId) milkId store0 = (Inl ''Todo not found'', store0)"
    by (elim conjE)
  from T have c: "web_toggle lib0 (request0\<lparr>req_userId := Some bobId, params_id := milkId\<rparr>) store0 =
     (Redirect ''/todos'', store0)"
    by (elim conjE)
  from T have d: "web_delete lib0 (request0\<lparr>req_userId := Some bobId, params_id := milkId\<rparr>) store0 =
     (Redirect ''/todos'', store0)"
    by (elim conjE)
  from h1 m h3 h4 h5 a b c d show ?thesis by (intro conjI) simp_all
qed

text \<open>
  C1. Bob sends the id of Alice's task. On the API his \<open>toggleTodo\<close> and \<open>deleteTodo\<close>
  fail with "Todo not found". On the web routes POST /todos/:id/toggle and
  POST /todos/:id/delete the same miss is not reported: Bob is answered with the
  redirect to /todos, the very answer Alice gets when her own toggle and delete succeed.
  The task is untouched in all four cases.
\<close>

theorem web_foreign_request_answered_as_success:
  "userId milk = ObjectId 1 \<and> ObjectId_new lib0 bobId = Inr (ObjectId 2) \<and>
   ObjectId_new lib0 milkId = Inr (todo_id milk) \<and>
   toggleTodo lib0 (asUser bobId) milkId store0 = (Inl ''Todo not found'', store0) \<and>
   deleteTodo lib0 (asUser bobId) milkId store0 = (Inl ''Todo not found'', store0) \<and>
   web_toggle lib0 (request0\<lparr>req_userId := Some bobId, params_id := milkId\<rparr>) store0 =
     (Redirect ''/todos'', store0) \<and>
   web_delete lib0 (request0\<lparr>req_userId := Some bobId, params_id := milkId\<rparr>) store0 =
     (Redirect ''/todos'', store0) \<and>
   web_toggle lib0 (request0\<lparr>req_userId := Some aliceId, params_id := milkId\<rparr>) store0 =
     (Redirect ''/todos'', store0\<lparr>Todo := [milk\<lparr>completed := True\<rparr>, bread, eggs]\<rparr>) \<and>
   web_delete lib0 (request0\<lparr>req_userId := Some aliceId, params_id := milkId\<rparr>) store0 =
     (Redirect ''/todos'', store0\<lparr>Todo := [bread, eggs]\<rparr>)"
  by code_simp

subsection \<open>Authentication on the API, and the messages of a failed login\<close>

text \<open>
  C3, as amended. When the context carries no user identifier (\<open>userId\<close> is missing or
  empty), the four task operations of the API (\<open>todos\<close>, \<open>addTodo\<close>, \<open>toggleTodo\<close>,
  \<open>deleteTodo\<close>) fail with "Authentication required" and leave the store as it was.
  \<open>register\<close> and \<open>login\<close> do not read the context: they give the same result under every
  context.
\<close>

theorem api_authentication_required:
  assumes "truthy (ctx_userId ctx) = None"
  shows "resolve L newId now ctx (OpTodos skip_arg take_arg) s = (Inl ''Authentication required'', s) \<and>
         resolve L newId now ctx (OpAddTodo txt) s = (Inl ''Authentication required'', s) \<and>
         resolve L newId now ctx (OpToggleTodo ident) s = (Inl ''Authentication required'', s) \<and>
         resolve L newId now ctx (OpDeleteTodo ident) s = (Inl ''Authentication required'', s) \<and>
         resolve L newId now ctx (OpRegister uname pw) s = resolve L newId now ctx' (OpRegister uname pw) s \<and>
         resolve L newId now ctx (OpLogin uname pw) s = resolve L newId now ctx' (OpLogin uname pw) s"
  using assms by (simp add: todos_def addTodo_def toggleTodo_def deleteTodo_def)

theorem api_authentication_required_witness:
  "truthy (ctx_userId \<lparr>ctx_userId = None\<rparr>) = None \<and>
   resolve lib0 (ObjectId 13) 4000 \<lparr>ctx_userId = None\<rparr> (OpTodos (Some 0) (Some 10)) store0 =
     (Inl ''Authentication required'', store0) \<and>
   resolve lib0 (ObjectId 13) 4000 \<lparr>ctx_userId = None\<rparr> (OpAddTodo ''feed cat'') store0 =
     (Inl ''Authentication required'', store0) \<and>
   resolve lib0 (ObjectId 13) 4000 \<lparr>ctx_userId = None\<rparr> (OpToggleTodo milkId) store0 =
     (Inl ''Authentication required'', store0) \<and>
   resolve lib0 (ObjectId 13) 4000 \<lparr>ctx_userId = None\<rparr> (OpDeleteTodo milkId) store0 =
     (Inl ''Authentication required'', store0)"
proof -
  have h: "truthy (ctx_userId \<lparr>ctx_userId = None\<rparr>) = None" by (simp add: truthy_def)
  show ?thesis
    using h api_authentication_required [OF h, of lib0 "ObjectId 13" 4000 "Some 0" "Some 10" store0
        "''feed cat''" milkId]
    by simp
qed

text \<open>
  C3 as stated fails for \<open>register\<close> and \<open>login\<close>: with no identifier in the context,
  \<open>register\<close> stores a new user and \<open>login\<close> returns a token.
\<close>

theorem register_login_without_identifier_counterexample:
  "resolve lib0 (ObjectId 3) 4000 \<lparr>ctx_userId = None\<rparr> (OpRegister ''carol'' ''Qwer5678#'') store0 =
     (Inr (UserValue \<lparr>user_payload_id = ''000000000000000000000003'',
                      user_payload_username = ''carol''\<rparr>),
      store0\<lparr>User := [alice, bob,
         \<lparr>user_id = ObjectId 3, username = ''carol'', password = ''hash:Qwer5678#''\<rparr>]\<rparr>) \<and>
   resolve lib0 (ObjectId 3) 4000 \<lparr>ctx_userId = None\<rparr> (OpLogin ''alice'' ''Abcd1234!'') store0 =
     (Inr (TokenValue ''signed:000000000000000000000001''), store0)"
  by code_simp

text \<open>C2 on the API: the two failures of \<open>login\<close> carry different messages, for every
  store and every library.\<close>

lemma login_unknown_user:
  "User_findOne uname (User s) = None \<Longrightarrow> login L uname pw s = Inl ''User not found''"
  by (simp add: login_def)

lemma login_wrong_password:
  "User_findOne uname (User s) = Some u \<Longrightarrow> \<not> comparePassword L (password u) pw \<Longrightarrow>
   login L uname pw s = Inl ''Invalid password''"
  by (simp add: login_def)

text \<open>C2 on the web form: once both fields are filled in, the two failures render the
  same page with the same message.\<close>

lemma web_login_failure:
  assumes "trim (field req ''username'') \<noteq> []" and "field req ''password'' \<noteq> []"
    and "User_findOne (trim (field req ''username'')) (User s) = None \<or>
         (\<exists>u. User_findOne (trim (field req ''username'')) (User s) = Some u \<and>
              \<not> comparePassword L (password u) (field req ''password''))"
  shows "web_login L req s =
         RenderForm 400 ''login'' [(''password'', ''Invalid username or password'')]
           (trim (field req ''username''))"
  using assms by (auto simp: web_login_def Let_def)

theorem web_login_failure_witness:
  "trim (field (request0\<lparr>body := [''username'' \<mapsto> '' alice '', ''password'' \<mapsto> ''wrong'']\<rparr>) ''username'') = ''alice'' \<and>
   User_findOne ''alice'' (User store0) = Some alice \<and>
   \<not> comparePassword lib0 (password alice) ''wrong'' \<and>
   web_login lib0 (request0\<lparr>body := [''username'' \<mapsto> '' alice '', ''password'' \<mapsto> ''wrong'']\<rparr>) store0 =
     RenderForm 400 ''login'' [(''password'', ''Invalid username or password'')] ''alice''"
proof -
  let ?req = "request0\<lparr>body := [''username'' \<mapsto> '' alice '', ''password'' \<mapsto> ''wrong'']\<rparr>"
  have t: "trim (field ?req ''username'') = ''alice''" by code_simp
  have p: "field ?req ''password'' = ''wrong''" by code_simp
  have u: "User_findOne ''alice'' (User store0) = Some alice" by code_simp
  have c: "\<not> comparePassword lib0 (password alice) ''wrong''" by code_simp
  have h1: "trim (field ?req ''username'') \<noteq> []" using t by simp
  have h2: "field ?req ''password'' \<noteq> []" using p by simp
  have h3: "User_findOne (trim (field ?req ''username'')) (User store0) = None \<or>
         (\<exists>u. User_findOne (trim (field ?req ''username'')) (User store0) = Some u \<and>
              \<not> comparePassword lib0 (password u) (field ?req ''password''))"
    using t p u c by simp
  from web_login_failure [OF h1 h2 h3] t u c show ?thesis by simp
qed

text \<open>
  C2. On the API the caller can tell the two failures apart: logging in as a user that
  does not exist fails with "User not found", logging in as Alice with a wrong password
  fails with "Invalid password". The web form answers both with "Invalid username or
  password".
\<close>

theorem api_login_reveals_failed_half:
  "login lib0 ''nobody'' ''Abcd1234!'' store0 = Inl ''User not found'' \<and>
   login lib0 ''alice'' ''wrong'' store0 = Inl ''Invalid password'' \<and>
   web_login lib0 (request0\<lparr>body := [''username'' \<mapsto> ''nobody'', ''password'' \<mapsto> ''Abcd1234!'']\<rparr>) store0 =
     RenderForm 400 ''login'' [(''password'', ''Invalid username or password'')] ''nobody'' \<and>
   web_login lib0 (request0\<lparr>body := [''username'' \<mapsto> ''alice'', ''password'' \<mapsto> ''wrong'']\<rparr>) store0 =
     RenderForm 400 ''login'' [(''password'', ''Invalid username or password'')] ''alice''"
  by code_simp

subsection \<open>The list query\<close>

lemma map_throw_leanPayload:
  "map_throw (leanPayload L) docs = (if docs = [] then Inr [] else
     Inl ''Cannot read properties of undefined (reading 'toString')'')"
  by (cases docs) (simp_all add: leanPayload_def lean_id_def)

text \<open>Whatever the arguments, \<open>todos\<close> never returns a task: it returns the empty list
  or fails.\<close>

lemma todos_returns_no_task:
  "todos L ctx skip_arg take_arg s = Inr r \<Longrightarrow> r = []"
  by (auto simp: todos_def todos_try_def map_throw_leanPayload Let_def
      split: option.splits sum.splits if_splits)

lemma sort_createdAt_desc_sorted:
  "sorted (map (\<lambda>d. - createdAt d) (sort_createdAt_desc ds))"
  by (simp add: sort_createdAt_desc_def)

lemma sort_createdAt_desc_distinct:
  "distinct (map todo_id ds) \<Longrightarrow> distinct (sort_createdAt_desc (Todo_find u ds))"
  by (simp add: sort_createdAt_desc_def Todo_find_def distinct_map_filter distinct_map[THEN iffD1, THEN conjunct1])

text \<open>
  The windows the query itself reads, before the documents are mapped to payloads: for
  \<open>n > 0\<close>, \<open>skip = 0, take = n\<close> and \<open>skip = n, take = n\<close> read the first \<open>n\<close> and the next
  \<open>n\<close> of the user's tasks in newest-first order: together the first \<open>2n\<close>, with no task
  in both. This is for a user no two of whose tasks have the same \<open>createdAt\<close>: MongoDB
  leaves the order of equal keys open, and may order them differently in two queries.
\<close>

lemma Todo_query_windows:
  assumes "0 < n" and "distinct (map todo_id ds)"
    and "distinct (map createdAt (Todo_find u ds))"
  shows "\<exists>w1 w2. Todo_query u 0 n ds = Inr w1 \<and> Todo_query u n n ds = Inr w2 \<and>
           w1 @ w2 = take (2 * nat n) (sort_createdAt_desc (Todo_find u ds)) \<and>
           set w1 \<inter> set w2 = {} \<and> distinct (w1 @ w2) \<and>
           sorted (map (\<lambda>d. - createdAt d) (w1 @ w2)) \<and>
           (\<forall>d \<in> set (w1 @ w2). userId d = u \<and> d \<in> set ds)"
proof -
  let ?xs = "sort_createdAt_desc (Todo_find u ds)"
  have q1: "Todo_query u 0 n ds = Inr (take (nat n) ?xs)"
    using assms(1) by (simp add: Todo_query_def Let_def)
  have q2: "Todo_query u n n ds = Inr (take (nat n) (drop (nat n) ?xs))"
    using assms(1) by (simp add: Todo_query_def Let_def)
  have app: "take (nat n) ?xs @ take (nat n) (drop (nat n) ?xs) = take (2 * nat n) ?xs"
    by (simp add: take_add mult_2)
  have dist: "distinct (take (2 * nat n) ?xs)"
    using sort_createdAt_desc_distinct [OF assms(2)] by (rule distinct_take)
  have srt: "sorted (map (\<lambda>d. - createdAt d) (take (2 * nat n) ?xs))"
    using sort_createdAt_desc_sorted [of "Todo_find u ds"]
    by (simp add: take_map [symmetric] sorted_wrt_take)
  have own: "\<forall>d \<in> set (take (2 * nat n) ?xs). userId d = u \<and> d \<in> set ds"
    by (auto simp: sort_createdAt_desc_def Todo_find_def dest!: in_set_takeD)
  have disj: "set (take (nat n) ?xs) \<inter> set (take (nat n) (drop (nat n) ?xs)) = {}"
    using dist unfolding app [symmetric] by simp
  show ?thesis
    using q1 q2 app dist srt own disj by (metis (no_types, lifting))
qed

theorem Todo_query_windows_witness:
  "(0::int) < 1 \<and> distinct (map todo_id (Todo store0)) \<and>
   distinct (map createdAt (Todo_find (ObjectId 1) (Todo store0))) \<and>
   Todo_query (ObjectId 1) 0 1 (Todo store0) = Inr [eggs] \<and>
   Todo_query (ObjectId 1) 1 1 (Todo store0) = Inr [milk] \<and>
   set [eggs] \<inter> set [milk] = {} \<and>
   [eggs] @ [milk] = take 2 (sort_createdAt_desc (Todo_find (ObjectId 1) (Todo store0)))"
proof -
  have h1: "(0::int) < 1" by simp
  have h2: "distinct (map todo_id (Todo store0))" by code_simp
  have h3: "distinct (map createdAt (Todo_find (ObjectId 1) (Todo store0)))" by code_simp
  have e1: "Todo_query (ObjectId 1) 0 1 (Todo store0) = Inr [eggs]" by code_simp
  have e2: "Todo_query (ObjectId 1) 1 1 (Todo store0) = Inr [milk]" by code_simp
  from Todo_query_windows [OF h1 h2 h3] e1 e2
  have "set [eggs] \<inter> set [milk] = {} \<and>
        [eggs] @ [milk] = take 2 (sort_createdAt_desc (Todo_find (ObjectId 1) (Todo store0)))"
    by auto
  with h1 h2 h3 e1 e2 show ?thesis by simp
qed

text \<open>
  C5. Alice has two tasks. The list query with \<open>skip = 0, take = 1\<close> reads the newer one
  from the store, and the resolver then fails with "Failed to fetch todos": the callback
  of \<open>docs.map\<close> calls \<open>d.id.toString()\<close> on a lean document, which has no \<open>id\<close>. The second
  window fails in the same way. Only a user with no task in the window gets an answer,
  the empty list.
\<close>

theorem todos_fails_on_every_task:
  "Todo_query (ObjectId 1) 0 1 (Todo store0) = Inr [eggs] \<and>
   todos lib0 (asUser aliceId) (Some 0) (Some 1) store0 = Inl ''Failed to fetch todos'' \<and>
   Todo_query (ObjectId 1) 1 1 (Todo store0) = Inr [milk] \<and>
   todos lib0 (asUser aliceId) (Some 1) (Some 1) store0 = Inl ''Failed to fetch todos'' \<and>
   todos lib0 (asUser aliceId) (Some 2) (Some 1) store0 = Inr []"
  by code_simp

subsection \<open>Creating a task\<close>

text \<open>On the web form a task is created exactly when the text is not empty after
  trimming, and the text stored is the trimmed one.\<close>

theorem web_add_creates_iff_trimmed_text:
  assumes "req_userId req = Some uid" and "uid \<noteq> []" and "ObjectId_new L uid = Inr u"
    and "newId \<notin> set (map todo_id (Todo s))"
  shows "(trim (field req ''text'') \<noteq> [] \<longrightarrow>
           web_add L newId now req s =
             (Redirect ''/todos'',
              s\<lparr>Todo := Todo s @ [\<lparr>todo_id = newId, todo_text = trim (field req ''text''),
                                    completed = False, createdAt = now, userId = u\<rparr>]\<rparr>)) \<and>
         (trim (field req ''text'') = [] \<longrightarrow>
           web_add L newId now req s =
             (RenderTodos 400 (sort_createdAt_desc (Todo_find u (Todo s)))
                (find (\<lambda>x. user_id x = u) (User s))
                [(''text'', ''Todo text cannot be empty'')], s))"
  using assms by (simp add: web_add_def truthy_def Todo_create_def Let_def)

theorem web_add_creates_iff_trimmed_text_witness:
  "ObjectId_new lib0 aliceId = Inr (ObjectId 1) \<and> ObjectId 13 \<notin> set (map todo_id (Todo store0)) \<and>
   trim (field (request0\<lparr>req_userId := Some aliceId, body := [''text'' \<mapsto> ''  feed cat '']\<rparr>) ''text'')
     = ''feed cat'' \<and>
   web_add lib0 (ObjectId 13) 4000
     (request0\<lparr>req_userId := Some aliceId, body := [''text'' \<mapsto> ''  feed cat '']\<rparr>) store0 =
     (Redirect ''/todos'',
      store0\<lparr>Todo := Todo store0 @ [\<lparr>todo_id = ObjectId 13, todo_text = ''feed cat'',
                                    completed = False, createdAt = 4000, userId = ObjectId 1\<rparr>]\<rparr>)"
proof -
  let ?req = "request0\<lparr>req_userId := Some aliceId, body := [''text'' \<mapsto> ''  feed cat '']\<rparr>"
  have h1: "req_userId ?req = Some aliceId" by simp
  have h2: "aliceId \<noteq> []" by (simp add: aliceId_def)
  have h3: "ObjectId_new lib0 aliceId = Inr (ObjectId 1)" by code_simp
  have h4: "ObjectId 13 \<notin> set (map todo_id (Todo store0))" by code_simp
  have t: "trim (field ?req ''text'') = ''feed cat''" by code_simp
  from web_add_creates_iff_trimmed_text [OF h1 h2 h3 h4, of 4000] t h3 h4
  show ?thesis by simp
qed

text \<open>On the API a task is created exactly when the text is not the empty string; the
  text is stored as it was sent.\<close>

theorem addTodo_creates_iff_nonempty_text:
  assumes "ctx_userId ctx = Some uid" and "uid \<noteq> []" and "ObjectId_new L uid = Inr u"
    and "newId \<notin> set (map todo_id (Todo s))"
  shows "(content \<noteq> [] \<longrightarrow>
           addTodo L newId now ctx content s =
             (Inr (todoPayload L \<lparr>todo_id = newId, todo_text = content, completed = False,
                                  createdAt = now, userId = u\<rparr>),
              s\<lparr>Todo := Todo s @ [\<lparr>todo_id = newId, todo_text = content, completed = False,
                                    createdAt = now, userId = u\<rparr>]\<rparr>)) \<and>
         (content = [] \<longrightarrow>
           addTodo L newId now ctx content s =
             (Inl ''Todo validation failed: text: Path `text` is required.'', s))"
  using assms
  by (simp add: addTodo_def addTodo_try_def truthy_def Todo_create_def Let_def orMessage_def)

theorem addTodo_creates_iff_nonempty_text_witness:
  "ObjectId_new lib0 aliceId = Inr (ObjectId 1) \<and> ObjectId 13 \<notin> set (map todo_id (Todo store0)) \<and>
   addTodo lib0 (ObjectId 13) 4000 (asUser aliceId) [] store0 =
     (Inl ''Todo validation failed: text: Path `text` is required.'', store0) \<and>
   snd (addTodo lib0 (ObjectId 13) 4000 (asUser aliceId) ''feed cat'' store0) =
     store0\<lparr>Todo := Todo store0 @ [\<lparr>todo_id = ObjectId 13, todo_text = ''feed cat'',
                                    completed = False, createdAt = 4000, userId = ObjectId 1\<rparr>]\<rparr>"
proof -
  have h1: "ctx_userId (asUser aliceId) = Some aliceId" by (simp add: asUser_def)
  have h2: "aliceId \<noteq> []" by (simp add: aliceId_def)
  have h3: "ObjectId_new lib0 aliceId = Inr (ObjectId 1)" by code_simp
  have h4: "ObjectId 13 \<notin> set (map todo_id (Todo store0))" by code_simp
  from addTodo_creates_iff_nonempty_text [OF h1 h2 h3 h4, where content = "[]" and now = 4000]
    addTodo_creates_iff_nonempty_text [OF h1 h2 h3 h4, where content = "''feed cat''" and now = 4000] h3 h4
  show ?thesis by simp
qed

text \<open>
  C4. A text of three spaces is empty after trimming. The web form rejects it with the
  validation message; the API mutation \<open>addTodo\<close> stores it as a new task of Alice.
\<close>

theorem addTodo_stores_blank_text:
  "trim ''   '' = [] \<and>
   addTodo lib0 (ObjectId 13) 4000 (asUser aliceId) ''   '' store0 =
     (Inr \<lparr>payload_id = ''00000000000000000000000d'', payload_text = ''   '',
           payload_completed = False, payload_createdAt = ''1970-01-01T00:00:04.000Z''\<rparr>,
      store0\<lparr>Todo := [milk, bread, eggs,
         \<lparr>todo_id = ObjectId 13, todo_text = ''   '', completed = False, createdAt = 4000,
          userId = ObjectId 1\<rparr>]\<rparr>) \<and>
   web_add lib0 (ObjectId 13) 4000
     (request0\<lparr>req_userId := Some aliceId, body := [''text'' \<mapsto> ''   '']\<rparr>) store0 =
     (RenderTodos 400 [eggs, milk] (Some alice) [(''text'', ''Todo text cannot be empty'')], store0)"
  by code_simp

subsection \<open>The authentication middleware\<close>

text \<open>
  C8. \<open>jwtAuth\<close> always calls \<open>next()\<close>: it never sends a response and never calls
  \<open>next(err)\<close>. When the token cookie is absent or empty, when \<open>jwt.verify\<close> throws
  (a malformed, expired or mis-signed token), and when the payload carries no user
  identifier, the request goes on as it came. The identifier of the payload is attached
  exactly when there is a token, it verifies, and its payload carries a non-empty
  \<open>userId\<close>; so a request that came without \<open>req.userId\<close> has one afterwards only in
  that case.
\<close>

theorem jwtAuth_never_aborts:
  "snd (jwtAuth L req) = Next \<and>
   (truthy (cookie req ''token'') = None \<longrightarrow> fst (jwtAuth L req) = req) \<and>
   (\<forall>tok err. truthy (cookie req ''token'') = Some tok \<and> jwt_verify L tok = JwtThrows err \<longrightarrow>
      fst (jwtAuth L req) = req) \<and>
   (\<forall>tok p. truthy (cookie req ''token'') = Some tok \<and> jwt_verify L tok = JwtPayload p \<and>
      truthy p = None \<longrightarrow> fst (jwtAuth L req) = req) \<and>
   (\<forall>tok uid. truthy (cookie req ''token'') = Some tok \<and> jwt_verify L tok = JwtPayload (Some uid) \<and>
      uid \<noteq> [] \<longrightarrow> fst (jwtAuth L req) = req\<lparr>req_userId := Some uid\<rparr>) \<and>
   (req_userId req = None \<longrightarrow>
      (req_userId (fst (jwtAuth L req)) \<noteq> None \<longleftrightarrow>
         (\<exists>tok uid. cookie req ''token'' = Some tok \<and> tok \<noteq> [] \<and>
            jwt_verify L tok = JwtPayload (Some uid) \<and> uid \<noteq> [])))"
proof -
  have a: "snd (jwtAuth L req) = Next"
    by (simp add: jwtAuth_def split: option.splits jwt_outcome.splits)
  have b: "truthy (cookie req ''token'') = None \<longrightarrow> fst (jwtAuth L req) = req"
    by (simp add: jwtAuth_def)
  have c: "\<forall>tok err. truthy (cookie req ''token'') = Some tok \<and> jwt_verify L tok = JwtThrows err \<longrightarrow>
      fst (jwtAuth L req) = req"
    by (simp add: jwtAuth_def)
  have d: "\<forall>tok p. truthy (cookie req ''token'') = Some tok \<and> jwt_verify L tok = JwtPayload p \<and>
      truthy p = None \<longrightarrow> fst (jwtAuth L req) = req"
    by (simp add: jwtAuth_def)
  have e: "\<forall>tok uid. truthy (cookie req ''token'') = Some tok \<and> jwt_verify L tok = JwtPayload (Some uid) \<and>
      uid \<noteq> [] \<longrightarrow> fst (jwtAuth L req) = req\<lparr>req_userId := Some uid\<rparr>"
    by (simp add: jwtAuth_def truthy_def)
  have f: "req_userId req = None \<longrightarrow>
      (req_userId (fst (jwtAuth L req)) \<noteq> None \<longleftrightarrow>
         (\<exists>tok uid. cookie req ''token'' = Some tok \<and> tok \<noteq> [] \<and>
            jwt_verify L tok = JwtPayload (Some uid) \<and> uid \<noteq> []))"
    by (auto simp: jwtAuth_def truthy_def split: option.splits jwt_outcome.splits if_splits)
  from a b c d e f show ?thesis by blast
qed

theorem jwtAuth_never_aborts_witness:
  "truthy (cookie (request0\<lparr>cookies := Some [''token'' \<mapsto> ''garbage'']\<rparr>) ''token'') = Some ''garbage'' \<and>
   jwt_verify lib0 ''garbage'' = JwtThrows ''jwt malformed'' \<and>
   snd (jwtAuth lib0 (request0\<lparr>cookies := Some [''token'' \<mapsto> ''garbage'']\<rparr>)) = Next \<and>
   req_userId (fst (jwtAuth lib0 (request0\<lparr>cookies := Some [''token'' \<mapsto> ''garbage'']\<rparr>))) = None \<and>
   truthy (cookie (request0\<lparr>cookies := Some [''token'' \<mapsto> ''signed:000000000000000000000001'']\<rparr>) ''token'')
     = Some ''signed:000000000000000000000001'' \<and>
   jwt_verify lib0 ''signed:000000000000000000000001'' = JwtPayload (Some aliceId) \<and>
   snd (jwtAuth lib0 (request0\<lparr>cookies := Some [''token'' \<mapsto> ''signed:000000000000000000000001'']\<rparr>)) = Next \<and>
   req_userId (fst (jwtAuth lib0
     (request0\<lparr>cookies := Some [''token'' \<mapsto> ''signed:000000000000000000000001'']\<rparr>))) = Some aliceId"
proof -
  let ?bad = "request0\<lparr>cookies := Some [''token'' \<mapsto> ''garbage'']\<rparr>"
  let ?good = "request0\<lparr>cookies := Some [''token'' \<mapsto> ''signed:000000000000000000000001'']\<rparr>"
  have h1: "truthy (cookie ?bad ''token'') = Some ''garbage''" by code_simp
  have h2: "jwt_verify lib0 ''garbage'' = JwtThrows ''jwt malformed''" by code_simp
  have h3: "truthy (cookie ?good ''token'') = Some ''signed:000000000000000000000001''" by code_simp
  have h4: "jwt_verify lib0 ''signed:000000000000000000000001'' = JwtPayload (Some aliceId)" by code_simp
  have h5: "aliceId \<noteq> []" by (simp add: aliceId_def)
  have r0: "req_userId request0 = None" by (simp add: request0_def)
  from jwtAuth_never_aborts [of lib0 ?bad] h1 h2
  have b: "snd (jwtAuth lib0 ?bad) = Next" "fst (jwtAuth lib0 ?bad) = ?bad" by blast+
  from jwtAuth_never_aborts [of lib0 ?good] h3 h4 h5
  have g: "snd (jwtAuth lib0 ?good) = Next" "fst (jwtAuth lib0 ?good) = ?good\<lparr>req_userId := Some aliceId\<rparr>"
    by blast+
  from h1 h2 h3 h4 b g r0 show ?thesis by simp
qed

subsection \<open>The anti-forgery dispatch\<close>

lemma csrfProtection_rejects:
  assumes "req_method req \<noteq> ''GET''" and "req_method req \<noteq> ''HEAD''" and "req_method req \<noteq> ''OPTIONS''"
    and "\<not> csrfTokenValid L req"
  shows "csrfProtection L req = Some \<lparr>err_code = ''EBADCSRFTOKEN'', err_message = ''invalid csrf token''\<rparr>"
  using assms by (simp add: csrfProtection_def)

lemma csrfTokenValid_iff:
  "csrfTokenValid L req \<longleftrightarrow> (\<exists>t. csrf_token req = Some t \<and> csrf_verify L (csrfSecret L req) t)"
  by (simp add: csrfTokenValid_def split: option.splits)

text \<open>
  C9, as amended. The dispatch decides by \<open>req.originalUrl\<close> as it was sent (query
  string included, letter case kept). A request whose \<open>originalUrl\<close> starts with /graphql
  or /public, or is /favicon.ico, skips the anti-forgery check and goes on to the rest of
  the pipeline whatever its method and token. Every other request is given to csurf: if
  its method is not GET, HEAD or OPTIONS and its token is missing or does not verify
  against the client's secret, it is answered with the 403 error page and nothing after
  the dispatch runs (the answer does not depend on \<open>rest\<close>, the store is as it was);
  with a safe method or a token that verifies it goes on.
\<close>

theorem csrf_check_decided_by_originalUrl:
  "(prefix ''/graphql'' (originalUrl req) \<or> prefix ''/public'' (originalUrl req) \<or>
    originalUrl req = ''/favicon.ico'' \<longrightarrow>
      csrfDispatch L req = Next \<and> fromCsrfDispatch L rest req s = rest req s) \<and>
   (\<not> (prefix ''/graphql'' (originalUrl req) \<or> prefix ''/public'' (originalUrl req) \<or>
       originalUrl req = ''/favicon.ico'') \<and>
    req_method req \<noteq> ''GET'' \<and> req_method req \<noteq> ''HEAD'' \<and> req_method req \<noteq> ''OPTIONS'' \<and>
    (csrf_token req = None \<or> (\<exists>t. csrf_token req = Some t \<and> \<not> csrf_verify L (csrfSecret L req) t)) \<longrightarrow>
      csrfDispatch L req =
        NextErr \<lparr>err_code = ''EBADCSRFTOKEN'', err_message = ''invalid csrf token''\<rparr> \<and>
      fromCsrfDispatch L rest req s =
        (RenderError 403
           ''Form tampering detected (invalid CSRF token). Please refresh and try again.'', s)) \<and>
   (\<not> (prefix ''/graphql'' (originalUrl req) \<or> prefix ''/public'' (originalUrl req) \<or>
       originalUrl req = ''/favicon.ico'') \<and>
    (req_method req = ''GET'' \<or> req_method req = ''HEAD'' \<or> req_method req = ''OPTIONS'' \<or>
     (\<exists>t. csrf_token req = Some t \<and> csrf_verify L (csrfSecret L req) t)) \<longrightarrow>
      csrfDispatch L req = Next \<and> fromCsrfDispatch L rest req s = rest req s)"
proof -
  have x: "csrfExempt (originalUrl req) \<longleftrightarrow>
      prefix ''/graphql'' (originalUrl req) \<or> prefix ''/public'' (originalUrl req) \<or>
      originalUrl req = ''/favicon.ico''"
    by (simp add: csrfExempt_def startsWith_def)
  have a: "csrfExempt (originalUrl req) \<longrightarrow>
      csrfDispatch L req = Next \<and> fromCsrfDispatch L rest req s = rest req s"
    by (simp add: csrfDispatch_def fromCsrfDispatch_def)
  have b: "\<not> csrfExempt (originalUrl req) \<and>
    req_method req \<noteq> ''GET'' \<and> req_method req \<noteq> ''HEAD'' \<and> req_method req \<noteq> ''OPTIONS'' \<and>
    (csrf_token req = None \<or> (\<exists>t. csrf_token req = Some t \<and> \<not> csrf_verify L (csrfSecret L req) t)) \<longrightarrow>
      csrfDispatch L req =
        NextErr \<lparr>err_code = ''EBADCSRFTOKEN'', err_message = ''invalid csrf token''\<rparr> \<and>
      fromCsrfDispatch L rest req s =
        (RenderError 403
           ''Form tampering detected (invalid CSRF token). Please refresh and try again.'', s)"
  proof (intro impI, elim conjE)
    assume e: "\<not> csrfExempt (originalUrl req)"
      and m: "req_method req \<noteq> ''GET''" "req_method req \<noteq> ''HEAD''" "req_method req \<noteq> ''OPTIONS''"
      and t: "csrf_token req = None \<or> (\<exists>t. csrf_token req = Some t \<and> \<not> csrf_verify L (csrfSecret L req) t)"
    from t have "\<not> csrfTokenValid L req" by (auto simp: csrfTokenValid_iff)
    from csrfProtection_rejects [OF m this] e
    show "csrfDispatch L req =
        NextErr \<lparr>err_code = ''EBADCSRFTOKEN'', err_message = ''invalid csrf token''\<rparr> \<and>
      fromCsrfDispatch L rest req s =
        (RenderError 403
           ''Form tampering detected (invalid CSRF token). Please refresh and try again.'', s)"
      by (simp add: fromCsrfDispatch_def csrfDispatch_def csrfErrorHandler_def)
  qed
  have c: "\<not> csrfExempt (originalUrl req) \<and>
    (req_method req = ''GET'' \<or> req_method req = ''HEAD'' \<or> req_method req = ''OPTIONS'' \<or>
     (\<exists>t. csrf_token req = Some t \<and> csrf_verify L (csrfSecret L req) t)) \<longrightarrow>
      csrfDispatch L req = Next \<and> fromCsrfDispatch L rest req s = rest req s"
    by (auto simp: fromCsrfDispatch_def csrfDispatch_def csrfProtection_def csrfTokenValid_iff)
  from a b c show ?thesis unfolding x by blast
qed

theorem csrf_check_decided_by_originalUrl_witness:
  "fromCsrfDispatch lib0 (web_add lib0 (ObjectId 13) 4000)
     (request0\<lparr>originalUrl := ''/todos/add'', req_userId := Some aliceId,
               body := [''text'' \<mapsto> ''feed cat'']\<rparr>) store0 =
     (RenderError 403
        ''Form tampering detected (invalid CSRF token). Please refresh and try again.'', store0) \<and>
   fromCsrfDispatch lib0 (web_add lib0 (ObjectId 13) 4000)
     (request0\<lparr>originalUrl := ''/todos/add'', req_userId := Some aliceId,
               body := [''text'' \<mapsto> ''feed cat''], csrf_token := Some ''stolen''\<rparr>) store0 =
     (RenderError 403
        ''Form tampering detected (invalid CSRF token). Please refresh and try again.'', store0) \<and>
   fromCsrfDispatch lib0 (web_add lib0 (ObjectId 13) 4000)
     (request0\<lparr>originalUrl := ''/todos/add'', req_userId := Some aliceId,
               body := [''text'' \<mapsto> ''feed cat''], csrf_token := Some ''new-secret''\<rparr>) store0 =
     (Redirect ''/todos'',
      store0\<lparr>Todo := Todo store0 @ [\<lparr>todo_id = ObjectId 13, todo_text = ''feed cat'',
                                    completed = False, createdAt = 4000, userId = ObjectId 1\<rparr>]\<rparr>) \<and>
   fromCsrfDispatch lib0 (web_add lib0 (ObjectId 13) 4000)
     (request0\<lparr>originalUrl := ''/graphql''\<rparr>) store0 =
     web_add lib0 (ObjectId 13) 4000 (request0\<lparr>originalUrl := ''/graphql''\<rparr>) store0"
proof -
  let ?missing = "request0\<lparr>originalUrl := ''/todos/add'', req_userId := Some aliceId,
               body := [''text'' \<mapsto> ''feed cat'']\<rparr>"
  let ?wrong = "request0\<lparr>originalUrl := ''/todos/add'', req_userId := Some aliceId,
               body := [''text'' \<mapsto> ''feed cat''], csrf_token := Some ''stolen''\<rparr>"
  let ?right = "request0\<lparr>originalUrl := ''/todos/add'', req_userId := Some aliceId,
               body := [''text'' \<mapsto> ''feed cat''], csrf_token := Some ''new-secret''\<rparr>"
  let ?api = "request0\<lparr>originalUrl := ''/graphql''\<rparr>"
  let ?rest = "web_add lib0 (ObjectId 13) 4000"
  have p: "\<not> (prefix ''/graphql'' ''/todos/add'' \<or> prefix ''/public'' ''/todos/add'' \<or>
               ''/todos/add'' = ''/favicon.ico'')" by simp
  have m1: "originalUrl ?missing = ''/todos/add''" "req_method ?missing = ''POST''"
    "csrf_token ?missing = None"
    by (simp_all add: request0_def)
  have m2: "originalUrl ?wrong = ''/todos/add''" "req_method ?wrong = ''POST''"
    "csrf_token ?wrong = Some ''stolen''" "\<not> csrf_verify lib0 (csrfSecret lib0 ?wrong) ''stolen''"
    by (simp_all add: request0_def lib0_def csrfSecret_def cookie_def truthy_def)
  have m3: "originalUrl ?right = ''/todos/add''"
    "csrf_token ?right = Some ''new-secret''" "csrf_verify lib0 (csrfSecret lib0 ?right) ''new-secret''"
    by (simp_all add: request0_def lib0_def csrfSecret_def cookie_def truthy_def)
  have m4: "originalUrl ?api = ''/graphql''" by simp
  have added: "web_add lib0 (ObjectId 13) 4000 ?right store0 =
     (Redirect ''/todos'',
      store0\<lparr>Todo := Todo store0 @ [\<lparr>todo_id = ObjectId 13, todo_text = ''feed cat'',
                                    completed = False, createdAt = 4000, userId = ObjectId 1\<rparr>]\<rparr>)"
    by code_simp
  have r1: "fromCsrfDispatch lib0 ?rest ?missing store0 =
     (RenderError 403
        ''Form tampering detected (invalid CSRF token). Please refresh and try again.'', store0)"
    using csrf_check_decided_by_originalUrl [of ?missing lib0 ?rest store0] p m1 by simp
  have r2: "fromCsrfDispatch lib0 ?rest ?wrong store0 =
     (RenderError 403
        ''Form tampering detected (invalid CSRF token). Please refresh and try again.'', store0)"
    using csrf_check_decided_by_originalUrl [of ?wrong lib0 ?rest store0] p m2 by simp
  have r3: "fromCsrfDispatch lib0 ?rest ?right store0 = ?rest ?right store0"
    using csrf_check_decided_by_originalUrl [of ?right lib0 ?rest store0] p m3 by simp
  have r4: "fromCsrfDispatch lib0 ?rest ?api store0 = ?rest ?api store0"
    using csrf_check_decided_by_originalUrl [of ?api lib0 ?rest store0] m4 by simp
  from r1 r2 r3 r4 added show ?thesis by simp
qed

text \<open>
  C9 as stated fails at the edges of the prefix test. POST /GraphQL is a request to the
  API entry point (Express matches the mount in any letter case), yet without a token it
  is answered with the 403 page. POST /favicon.ico?x=1 has the favicon's path, yet it is
  checked and answered with the 403 page. POST /graphqlx is not a request to the API
  entry point, to /public or to the favicon, yet it skips the check.
\<close>

theorem csrf_exemption_counterexample:
  "mountMatches ''/graphql'' ''/GraphQL'' \<and>
   fromCsrfDispatch lib0 (web_add lib0 (ObjectId 13) 4000)
     (request0\<lparr>originalUrl := ''/GraphQL''\<rparr>) store0 =
     (RenderError 403
        ''Form tampering detected (invalid CSRF token). Please refresh and try again.'', store0) \<and>
   requestPath ''/favicon.ico?x=1'' = ''/favicon.ico'' \<and>
   fromCsrfDispatch lib0 (web_add lib0 (ObjectId 13) 4000)
     (request0\<lparr>originalUrl := ''/favicon.ico?x=1''\<rparr>) store0 =
     (RenderError 403
        ''Form tampering detected (invalid CSRF token). Please refresh and try again.'', store0) \<and>
   mountMatches ''/graphql'' ''/graphqlx'' = False \<and>
   prefix ''/public'' (requestPath ''/graphqlx'') = False \<and>
   (requestPath ''/graphqlx'' = ''/favicon.ico'') = False \<and>
   req_method (request0\<lparr>originalUrl := ''/graphqlx''\<rparr>) = ''POST'' \<and>
   csrf_token (request0\<lparr>originalUrl := ''/graphqlx''\<rparr>) = None \<and>
   csrfDispatch lib0 (request0\<lparr>originalUrl := ''/graphqlx''\<rparr>) = Next"
  by code_simp

subsection \<open>Registering on the API\<close>



subsection \<open>The stores the application reaches\<close>

text \<open>Every operation keeps the \<open>_id\<close>s of the Todo collection unique, so the stores the
  theorems above speak of are the ones the application can reach.\<close>

lemma Todo_save_completed_ids:
  "map todo_id (Todo_save_completed oid b ds) = map todo_id ds"
  by (induction ds) auto

lemma Todo_deleteOne_subset:
  "set (fst (Todo_deleteOne oid u ds)) \<subseteq> set ds"
  by (induction ds) auto

lemma Todo_deleteOne_distinct:
  "distinct (map todo_id ds) \<Longrightarrow> distinct (map todo_id (fst (Todo_deleteOne oid u ds)))"
proof (induction ds)
  case Nil
  then show ?case by simp
next
  case (Cons d ds)
  have "todo_id d \<notin> todo_id ` set (fst (Todo_deleteOne oid u ds))"
    using Cons.prems Todo_deleteOne_subset [of oid u ds] by auto
  with Cons show ?case by simp
qed

lemma Todo_create_distinct:
  "distinct (map todo_id ds) \<Longrightarrow> Todo_create newId now txt u ds = Inr (d, ds') \<Longrightarrow>
   distinct (map todo_id ds')"
  by (auto simp: Todo_create_def Let_def split: if_splits)

lemma unique_ids_resolve:
  assumes "unique_ids s"
  shows "unique_ids (snd (resolve L newId now ctx op s))"
proof (cases op)
  case (OpTodos a b)
  with assms show ?thesis by simp
next
  case (OpRegister uname pw)
  with assms show ?thesis
    by (auto simp: register_def unique_ids_def split: sum.splits prod.splits)
next
  case (OpLogin uname pw)
  with assms show ?thesis by simp
next
  case (OpAddTodo content)
  with assms Todo_create_distinct show ?thesis
    by (fastforce simp: addTodo_def addTodo_try_def unique_ids_def
        split: option.splits sum.splits prod.splits)
next
  case (OpToggleTodo ident)
  with assms show ?thesis
    by (auto simp: toggleTodo_def toggleTodo_try_def unique_ids_def Todo_save_completed_ids Let_def
        split: option.splits sum.splits prod.splits)
next
  case (OpDeleteTodo ident)
  with assms show ?thesis
    by (auto simp: deleteTodo_def deleteTodo_try_def unique_ids_def Todo_deleteOne_distinct Let_def
        split: option.splits sum.splits prod.splits)
qed

lemma unique_ids_web:
  assumes "unique_ids s"
  shows "unique_ids (snd (web_add L newId now req s))"
    and "unique_ids (snd (web_toggle L req s))"
    and "unique_ids (snd (web_delete L req s))"
    and "unique_ids (snd (web_register L newId req s))"
proof -
  show "unique_ids (snd (web_add L newId now req s))"
    using assms Todo_create_distinct
    by (fastforce simp: web_add_def unique_ids_def Let_def
        split: option.splits sum.splits prod.splits)
  show "unique_ids (snd (web_toggle L req s))"
    using assms
    by (auto simp: web_toggle_def unique_ids_def Todo_save_completed_ids
        split: option.splits sum.splits)
  show "unique_ids (snd (web_delete L req s))"
    using assms
    by (auto simp: web_delete_def unique_ids_def Todo_deleteOne_distinct
        split: option.splits sum.splits)
  show "unique_ids (snd (web_register L newId req s))"
    using assms
    by (auto simp: web_register_def unique_ids_def Let_def
        split: option.splits sum.splits prod.splits)
qed

lemma ensureAuth_gate:
  "ensureAuth req = (if truthy (req_userId req) = None then Responded (Redirect ''/login'') else Next)"
  by (simp add: ensureAuth_def split: option.splits)

end
